theory Spec2Isabelle
  imports Complex_Main "HOL-Library.Product_Lexorder"
begin

section \<open>Storage: the SQLite database\<close>

text \<open>
  The database file holds the tables \<^verbatim>\<open>memories\<close>, \<^verbatim>\<open>relationships\<close> and the vec0
  virtual table \<^verbatim>\<open>memory_embeddings\<close> (\<^verbatim>\<open>createTables\<close> in database.ts). A table is the
  list of its rows in insertion order. A timestamp column holds text of one fixed-width
  format per column, which SQLite compares bytewise, that is in the order of time: a
  timestamp is the clock reading as a number. A \<^verbatim>\<open>REAL\<close> is a real number. The column
  \<^verbatim>\<open>metadata\<close> holds text or \<^verbatim>\<open>NULL\<close>.

  Two facts belong to the connection, not to the file. \<open>vec_loaded\<close>: whether
  \<^verbatim>\<open>sqliteVec.load\<close> succeeded, so that statements on \<^verbatim>\<open>memory_embeddings\<close> and
  \<^verbatim>\<open>vec_distance_cosine\<close> can be prepared; every such statement raises otherwise.
  \<open>foreign_keys\<close>: whether the connection enforces the \<^verbatim>\<open>FOREIGN KEY ... ON DELETE CASCADE\<close>
  clauses of \<^verbatim>\<open>relationships\<close>. The source never sets this pragma, so it has the default of
  the driver: better-sqlite3 builds SQLite with \<^verbatim>\<open>SQLITE_DEFAULT_FOREIGN_KEYS=1\<close>.
\<close>

type_synonym timestamp = nat

type_synonym embedding = "real list"

record memory_row =
  m_id :: string
  m_content :: string
  m_metadata :: "string option"
  m_created_at :: timestamp
  m_updated_at :: timestamp

record relationship_row =
  r_id :: string
  r_from_memory_id :: string
  r_to_memory_id :: string
  r_relationship_type :: string
  r_strength :: real
  r_metadata :: "string option"
  r_created_at :: timestamp

record database =
  memories :: "memory_row list"
  relationships :: "relationship_row list"
  memory_embeddings :: "(string \<times> embedding) list"
  vec_loaded :: bool
  foreign_keys :: bool

datatype error =
    EmbeddingError string
  | SyntaxError
  | SqliteError

definition new_file :: database where
  "new_file = \<lparr>memories = [], relationships = [], memory_embeddings = [],
                vec_loaded = False, foreign_keys = False\<rparr>"

text \<open>
  \<^verbatim>\<open>initializeDatabase\<close> opens the file, keeping what it holds (\<^verbatim>\<open>CREATE TABLE IF NOT EXISTS\<close>);
  \<open>vec_ok\<close> says whether loading sqlite-vec succeeded this time.
\<close>

definition initializeDatabase :: "bool \<Rightarrow> database \<Rightarrow> database" where
  "initializeDatabase vec_ok file = file\<lparr>vec_loaded := vec_ok, foreign_keys := True\<rparr>"

subsection \<open>SQL clauses\<close>

text \<open>
  \<^verbatim>\<open>LIMIT ?\<close> bound to a JavaScript number. SQLite requires an integer here: a number
  with a fractional part, and one that is not strictly between \<open>-2\<^sup>6\<^sup>3\<close> and \<open>2\<^sup>6\<^sup>3\<close>,
  makes the statement raise (\<^verbatim>\<open>SQLITE_MISMATCH\<close>) before it reads a row. A negative
  limit means no limit.
\<close>

definition valid_limit :: "real \<Rightarrow> bool" where
  "valid_limit n = (of_int \<lfloor>n\<rfloor> = n \<and> - (2 ^ 63) < n \<and> n < 2 ^ 63)"

definition sql_limit :: "real \<Rightarrow> 'a list \<Rightarrow> error + 'a list" where
  "sql_limit n rows =
     (if \<not> valid_limit n then Inl SqliteError
      else if n < 0 then Inr rows
      else Inr (take (nat \<lfloor>n\<rfloor>) rows))"

text \<open>
  \<^verbatim>\<open>ORDER BY k ASC\<close> and \<^verbatim>\<open>ORDER BY k DESC\<close>. SQLite leaves the order of rows with equal
  keys open; the model sorts stably, and no theorem below depends on it.
\<close>

definition order_by_asc :: "('a \<Rightarrow> 'k::linorder) \<Rightarrow> 'a list \<Rightarrow> 'a list" where
  "order_by_asc k rows = sort_key k rows"

definition order_by_desc :: "('a \<Rightarrow> 'k::linorder) \<Rightarrow> 'a list \<Rightarrow> 'a list" where
  "order_by_desc k rows = rev (sort_key k rows)"

text \<open>
  \<^verbatim>\<open>text LIKE pattern\<close>: \<^verbatim>\<open>%\<close> matches any run of characters, \<^verbatim>\<open>_\<close> any one character,
  and an ASCII letter matches itself in either case.
\<close>

definition ascii_lower :: "char \<Rightarrow> char" where
  "ascii_lower c =
     (if 65 \<le> (of_char c :: nat) \<and> (of_char c :: nat) \<le> 90 then char_of (of_char c + (32 :: nat)) else c)"

fun sql_like :: "string \<Rightarrow> string \<Rightarrow> bool" where
  "sql_like [] t = (t = [])"
| "sql_like (p # ps) t =
     (if p = CHR ''%'' then
        sql_like ps t \<or> (case t of [] \<Rightarrow> False | c # ts \<Rightarrow> sql_like (p # ps) ts)
      else
        (case t of
           [] \<Rightarrow> False
         | c # ts \<Rightarrow> (p = CHR ''_'' \<or> ascii_lower p = ascii_lower c) \<and> sql_like ps ts))"

text \<open>\<^verbatim>\<open>rows.map(f)\<close> where \<open>f\<close> may raise: the first exception ends the map.\<close>

fun try_map :: "('a \<Rightarrow> error + 'b) \<Rightarrow> 'a list \<Rightarrow> error + 'b list" where
  "try_map f [] = Inr []"
| "try_map f (x # xs) =
     (case f x of
        Inl e \<Rightarrow> Inl e
      | Inr y \<Rightarrow> (case try_map f xs of Inl e \<Rightarrow> Inl e | Inr ys \<Rightarrow> Inr (y # ys)))"

section \<open>The memory service\<close>

text \<open>
  memory.ts. What a call needs from outside the module is passed in. \<open>JSON_parse\<close> and
  \<open>JSON_stringify\<close> are the two built-ins of the JavaScript runtime through which every
  read and every write of metadata goes: \<open>JSON_parse t\<close> is the value \<^verbatim>\<open>JSON.parse\<close> returns
  for the text \<open>t\<close>, or \<open>None\<close> when it throws its \<^verbatim>\<open>SyntaxError\<close>, and \<open>JSON_stringify\<close>
  is the text written for a value. The type \<open>'j\<close> of JavaScript values is left open, and
  nothing is assumed of the two functions: a property of the service proved below holds
  whatever the runtime parses and prints. (The values of \<open>'j\<close> are those for which
  \<^verbatim>\<open>JSON.stringify\<close> returns a text: it returns \<^verbatim>\<open>undefined\<close> for a function and throws on
  a cycle.) \<open>generateEmbedding\<close> is the request to the
  provider, which may throw, \<open>vec_distance_cosine\<close> the SQL function of sqlite-vec, \<open>new_id\<close>
  the result of \<^verbatim>\<open>randomUUID()\<close>, \<open>now\<close> the clock. A promise that rejects and a function
  that throws return \<open>Inl\<close>. An operation that writes returns its result and the database
  after it.
\<close>

record 'j Memory =
  mem_id :: string
  content :: string
  metadata :: 'j
  created_at :: timestamp
  updated_at :: timestamp

record 'j Relationship =
  rel_id :: string
  from_memory_id :: string
  to_memory_id :: string
  relationship_type :: string
  strength :: real
  rel_metadata :: 'j
  rel_created_at :: timestamp

text \<open>\<^verbatim>\<open>JSON.parse(row.metadata || '{}')\<close>: a null or empty column reads as the text \<^verbatim>\<open>{}\<close>.\<close>

definition parse_metadata :: "(string \<Rightarrow> 'j option) \<Rightarrow> string option \<Rightarrow> error + 'j" where
  "parse_metadata JSON_parse col =
     (case JSON_parse (case col of None \<Rightarrow> ''{}'' | Some t \<Rightarrow> (if t = [] then ''{}'' else t)) of
        None \<Rightarrow> Inl SyntaxError
      | Some j \<Rightarrow> Inr j)"

text \<open>
  The object built from a row of \<^verbatim>\<open>memories\<close>; \<^verbatim>\<open>getMemory\<close> and both branches of
  \<^verbatim>\<open>searchMemories\<close> spell out the same literal.
\<close>

definition toMemory :: "(string \<Rightarrow> 'j option) \<Rightarrow> memory_row \<Rightarrow> error + 'j Memory" where
  "toMemory JSON_parse row =
     (case parse_metadata JSON_parse (m_metadata row) of
        Inl e \<Rightarrow> Inl e
      | Inr j \<Rightarrow> Inr \<lparr>mem_id = m_id row, content = m_content row, metadata = j,
                      created_at = m_created_at row, updated_at = m_updated_at row\<rparr>)"

definition toRelationship ::
  "(string \<Rightarrow> 'j option) \<Rightarrow> relationship_row \<Rightarrow> error + 'j Relationship" where
  "toRelationship JSON_parse row =
     (case parse_metadata JSON_parse (r_metadata row) of
        Inl e \<Rightarrow> Inl e
      | Inr j \<Rightarrow> Inr \<lparr>rel_id = r_id row, from_memory_id = r_from_memory_id row,
                      to_memory_id = r_to_memory_id row,
                      relationship_type = r_relationship_type row, strength = r_strength row,
                      rel_metadata = j, rel_created_at = r_created_at row\<rparr>)"

subsection \<open>Memories\<close>

definition getMemory ::
  "(string \<Rightarrow> 'j option) \<Rightarrow> database \<Rightarrow> string \<Rightarrow> error + 'j Memory option" where
  "getMemory JSON_parse db ident =
     (case find (\<lambda>row. m_id row = ident) (memories db) of
        None \<Rightarrow> Inr None
      | Some row \<Rightarrow> (case toMemory JSON_parse row of Inl e \<Rightarrow> Inl e | Inr m \<Rightarrow> Inr (Some m)))"

text \<open>\<^verbatim>\<open>INSERT INTO memories\<close>: the primary key must be new.\<close>

definition insert_memory :: "database \<Rightarrow> memory_row \<Rightarrow> error + database" where
  "insert_memory db row =
     (if m_id row \<in> set (map m_id (memories db)) then Inl SqliteError
      else Inr (db\<lparr>memories := memories db @ [row]\<rparr>))"

text \<open>
  \<^verbatim>\<open>INSERT INTO memory_embeddings\<close>: the table is \<^verbatim>\<open>vec0(id TEXT PRIMARY KEY, embedding FLOAT[768])\<close>,
  so the module must be loaded, the key new and the vector of 768 components.
\<close>

definition insert_embedding :: "database \<Rightarrow> string \<Rightarrow> embedding \<Rightarrow> error + database" where
  "insert_embedding db ident v =
     (if \<not> vec_loaded db \<or> length v \<noteq> 768 \<or> ident \<in> set (map fst (memory_embeddings db))
      then Inl SqliteError
      else Inr (db\<lparr>memory_embeddings := memory_embeddings db @ [(ident, v)]\<rparr>))"

definition update_embedding :: "database \<Rightarrow> string \<Rightarrow> embedding \<Rightarrow> error + database" where
  "update_embedding db ident v =
     (if \<not> vec_loaded db \<or> (length v \<noteq> 768 \<and> ident \<in> set (map fst (memory_embeddings db)))
      then Inl SqliteError
      else Inr (db\<lparr>memory_embeddings :=
                     map (\<lambda>e. if fst e = ident then (ident, v) else e) (memory_embeddings db)\<rparr>))"

text \<open>
  \<open>meta\<close> is the argument \<^verbatim>\<open>metadata\<close>, \<open>None\<close> when the caller leaves it out: its default
  is the empty object, which \<^verbatim>\<open>JSON.stringify\<close> prints as the text \<^verbatim>\<open>{}\<close>.
\<close>

definition addMemory ::
  "(string \<Rightarrow> error + embedding) \<Rightarrow> ('j \<Rightarrow> string) \<Rightarrow> string \<Rightarrow> timestamp \<Rightarrow> database \<Rightarrow>
   string \<Rightarrow> 'j option \<Rightarrow> (error + string) \<times> database" where
  "addMemory generateEmbedding JSON_stringify new_id now db cont meta =
     (case generateEmbedding cont of
        Inl e \<Rightarrow> (Inl e, db)
      | Inr v \<Rightarrow>
          (case insert_memory db
                  \<lparr>m_id = new_id, m_content = cont,
                   m_metadata = Some (case meta of None \<Rightarrow> ''{}'' | Some j \<Rightarrow> JSON_stringify j),
                   m_created_at = now, m_updated_at = now\<rparr> of
             Inl e \<Rightarrow> (Inl e, db)
           | Inr db1 \<Rightarrow>
               (Inr new_id,
                (case insert_embedding db1 new_id v of Inl _ \<Rightarrow> db1 | Inr db2 \<Rightarrow> db2))))"

text \<open>
  \<^verbatim>\<open>UPDATE memories SET ... WHERE id = ?\<close> with the columns that were given and
  \<^verbatim>\<open>updated_at = CURRENT_TIMESTAMP\<close>; the trigger \<^verbatim>\<open>update_memories_updated_at\<close> writes the
  same timestamp again.
\<close>

definition update_memory_rows ::
  "database \<Rightarrow> string \<Rightarrow> string option \<Rightarrow> string option \<Rightarrow> timestamp \<Rightarrow> database" where
  "update_memory_rows db ident cont meta now =
     db\<lparr>memories :=
          map (\<lambda>row. if m_id row = ident
                      then row\<lparr>m_content := (case cont of None \<Rightarrow> m_content row | Some c \<Rightarrow> c),
                               m_metadata := (case meta of None \<Rightarrow> m_metadata row | Some t \<Rightarrow> Some t),
                               m_updated_at := now\<rparr>
                      else row)
              (memories db)\<rparr>"

definition updateMemory ::
  "(string \<Rightarrow> error + embedding) \<Rightarrow> (string \<Rightarrow> 'j option) \<Rightarrow> ('j \<Rightarrow> string) \<Rightarrow> timestamp \<Rightarrow>
   database \<Rightarrow> string \<Rightarrow> string option \<Rightarrow> 'j option \<Rightarrow> (error + bool) \<times> database" where
  "updateMemory generateEmbedding JSON_parse JSON_stringify now db ident cont meta =
     (case getMemory JSON_parse db ident of
        Inl e \<Rightarrow> (Inl e, db)
      | Inr None \<Rightarrow> (Inr False, db)
      | Inr (Some memory) \<Rightarrow>
          (case (case cont of None \<Rightarrow> Inr db
                 | Some c \<Rightarrow>
                     (case generateEmbedding c of
                        Inl e \<Rightarrow> Inl e
                      | Inr v \<Rightarrow>
                          (case update_embedding db ident v of
                             Inl _ \<Rightarrow> Inr db
                           | Inr db1 \<Rightarrow> Inr db1))) of
             Inl e \<Rightarrow> (Inl e, db)
           | Inr db1 \<Rightarrow>
               (if cont = None \<and> meta = None then (Inr True, db1)
                else (Inr (0 < length (filter (\<lambda>row. m_id row = ident) (memories db1))),
                      update_memory_rows db1 ident cont (map_option JSON_stringify meta) now))))"

text \<open>
  \<^verbatim>\<open>DELETE FROM memories WHERE id = ?\<close>: with foreign keys enforced, deleting a row deletes
  the relationships that reference it from either column (\<^verbatim>\<open>ON DELETE CASCADE\<close>). Then
  \<^verbatim>\<open>DELETE FROM memory_embeddings WHERE id = ?\<close>, whose failure is swallowed.
\<close>

definition deleteMemory :: "database \<Rightarrow> string \<Rightarrow> bool \<times> database" where
  "deleteMemory db ident =
     (let changes = length (filter (\<lambda>row. m_id row = ident) (memories db));
          db1 = db\<lparr>memories := filter (\<lambda>row. m_id row \<noteq> ident) (memories db),
                   relationships :=
                     (if foreign_keys db \<and> 0 < changes
                      then filter (\<lambda>r. r_from_memory_id r \<noteq> ident \<and> r_to_memory_id r \<noteq> ident)
                             (relationships db)
                      else relationships db)\<rparr>;
          db2 = (if vec_loaded db1
                 then db1\<lparr>memory_embeddings := filter (\<lambda>e. fst e \<noteq> ident) (memory_embeddings db1)\<rparr>
                 else db1)
      in (0 < changes, db2))"

subsection \<open>Search\<close>

text \<open>
  The options \<^verbatim>\<open>limit\<close> and \<^verbatim>\<open>threshold\<close> are JavaScript numbers. A JavaScript number
  is a real number here; \<^verbatim>\<open>NaN\<close> and the infinities are left out.
\<close>

record SearchOptions =
  search_limit :: "real option"
  threshold :: "real option"

text \<open>
  The \<^verbatim>\<open>try\<close> block of \<^verbatim>\<open>searchMemories\<close>. \<open>vec_distance_cosine\<close> raises on vectors it
  cannot compare. The statement joins each memory with its embedding row, keeps the rows of
  the join at a distance below \<open>1 - threshold\<close>, orders them by distance and cuts the list at
  \<open>limit\<close>. It raises when sqlite-vec is not loaded and when the limit is not an integer;
  with a limit of 0 it returns no row without reading one.
\<close>

definition embedded_rows :: "database \<Rightarrow> (memory_row \<times> embedding) list" where
  "embedded_rows db =
     concat (map (\<lambda>row. map (\<lambda>e. (row, snd e))
                            (filter (\<lambda>e. fst e = m_id row) (memory_embeddings db)))
                 (memories db))"

definition with_distance ::
  "(embedding \<Rightarrow> embedding \<Rightarrow> error + real) \<Rightarrow> embedding \<Rightarrow>
   memory_row \<times> embedding \<Rightarrow> error + memory_row \<times> real" where
  "with_distance vec_distance_cosine q rv =
     (case vec_distance_cosine (snd rv) q of Inl e \<Rightarrow> Inl e | Inr d \<Rightarrow> Inr (fst rv, d))"

definition vector_rows ::
  "(embedding \<Rightarrow> embedding \<Rightarrow> error + real) \<Rightarrow> database \<Rightarrow> embedding \<Rightarrow> real \<Rightarrow> real \<Rightarrow>
   error + (memory_row \<times> real) list" where
  "vector_rows vec_distance_cosine db q lmt thr =
     (if \<not> vec_loaded db \<or> \<not> valid_limit lmt then Inl SqliteError
      else if lmt = 0 then Inr []
      else
        (case try_map (with_distance vec_distance_cosine q) (embedded_rows db) of
           Inl e \<Rightarrow> Inl e
         | Inr scored \<Rightarrow>
             sql_limit lmt (order_by_asc snd (filter (\<lambda>rd. snd rd < 1 - thr) scored))))"

definition vector_search ::
  "(string \<Rightarrow> error + embedding) \<Rightarrow> (string \<Rightarrow> 'j option) \<Rightarrow>
   (embedding \<Rightarrow> embedding \<Rightarrow> error + real) \<Rightarrow>
   database \<Rightarrow> string \<Rightarrow> real \<Rightarrow> real \<Rightarrow> error + 'j Memory list" where
  "vector_search generateEmbedding JSON_parse vec_distance_cosine db query lmt thr =
     (case generateEmbedding query of
        Inl e \<Rightarrow> Inl e
      | Inr q \<Rightarrow>
          (case vector_rows vec_distance_cosine db q lmt thr of
             Inl e \<Rightarrow> Inl e
           | Inr rows \<Rightarrow> try_map (\<lambda>rd. toMemory JSON_parse (fst rd)) rows))"

text \<open>The \<^verbatim>\<open>catch\<close> block: \<^verbatim>\<open>WHERE content LIKE '%query%' ORDER BY created_at DESC LIMIT ?\<close>.\<close>

definition like_rows :: "database \<Rightarrow> string \<Rightarrow> memory_row list" where
  "like_rows db query =
     filter (\<lambda>row. sql_like (CHR ''%'' # query @ ''%'') (m_content row)) (memories db)"

definition text_rows :: "database \<Rightarrow> string \<Rightarrow> real \<Rightarrow> error + memory_row list" where
  "text_rows db query lmt = sql_limit lmt (order_by_desc m_created_at (like_rows db query))"

definition text_search ::
  "(string \<Rightarrow> 'j option) \<Rightarrow> database \<Rightarrow> string \<Rightarrow> real \<Rightarrow> error + 'j Memory list" where
  "text_search JSON_parse db query lmt =
     (case text_rows db query lmt of
        Inl e \<Rightarrow> Inl e
      | Inr rows \<Rightarrow> try_map (toMemory JSON_parse) rows)"

text \<open>
  \<^verbatim>\<open>const { limit = 10, threshold = 0.5 } = options\<close>, then the \<^verbatim>\<open>try\<close> block and, when it
  raises, the \<^verbatim>\<open>catch\<close> block.
\<close>

definition searchMemories ::
  "(string \<Rightarrow> error + embedding) \<Rightarrow> (string \<Rightarrow> 'j option) \<Rightarrow>
   (embedding \<Rightarrow> embedding \<Rightarrow> error + real) \<Rightarrow>
   database \<Rightarrow> string \<Rightarrow> SearchOptions \<Rightarrow> error + 'j Memory list" where
  "searchMemories generateEmbedding JSON_parse vec_distance_cosine db query options =
     (let lmt = (case search_limit options of None \<Rightarrow> 10 | Some l \<Rightarrow> l);
          thr = (case threshold options of None \<Rightarrow> 0.5 | Some t \<Rightarrow> t)
      in (case vector_search generateEmbedding JSON_parse vec_distance_cosine db query lmt thr of
            Inr ms \<Rightarrow> Inr ms
          | Inl vectorError \<Rightarrow> text_search JSON_parse db query lmt))"


subsection \<open>Relationships\<close>

datatype direction = From | To | Both

record RelationshipQuery =
  memoryId :: "string option"
  relationshipType :: "string option"
  direction :: "direction option"
  minStrength :: "real option"
  limit :: "real option"

text \<open>\<^verbatim>\<open>if (memoryId)\<close>: an absent and an empty string are both falsy.\<close>

definition truthy :: "string option \<Rightarrow> bool" where
  "truthy s = (case s of None \<Rightarrow> False | Some t \<Rightarrow> t \<noteq> [])"

definition where_clause :: "RelationshipQuery \<Rightarrow> relationship_row \<Rightarrow> bool" where
  "where_clause query r =
     ((case minStrength query of None \<Rightarrow> 0 | Some s \<Rightarrow> s) \<le> r_strength r
      \<and> (if truthy (memoryId query)
           then (case direction query of
                   Some From \<Rightarrow> Some (r_from_memory_id r) = memoryId query
                 | Some To \<Rightarrow> Some (r_to_memory_id r) = memoryId query
                 | _ \<Rightarrow> Some (r_from_memory_id r) = memoryId query
                         \<or> Some (r_to_memory_id r) = memoryId query)
           else True)
      \<and> (if truthy (relationshipType query)
           then Some (r_relationship_type r) = relationshipType query
           else True))"

text \<open>
  The rows that the statement of \<^verbatim>\<open>getRelationships\<close> returns
  (\<^verbatim>\<open>ORDER BY strength DESC, created_at DESC LIMIT ?\<close>, the limit 100 by default), and the
  objects that \<^verbatim>\<open>rows.map\<close> builds from them.
\<close>

definition relationship_rows :: "database \<Rightarrow> RelationshipQuery \<Rightarrow> error + relationship_row list" where
  "relationship_rows db query =
     sql_limit (case limit query of None \<Rightarrow> 100 | Some l \<Rightarrow> l)
       (order_by_desc (\<lambda>r. (r_strength r, r_created_at r))
          (filter (where_clause query) (relationships db)))"

definition getRelationships ::
  "(string \<Rightarrow> 'j option) \<Rightarrow> database \<Rightarrow> RelationshipQuery \<Rightarrow> error + 'j Relationship list" where
  "getRelationships JSON_parse db query =
     (case relationship_rows db query of
        Inl e \<Rightarrow> Inl e
      | Inr rows \<Rightarrow> try_map (toRelationship JSON_parse) rows)"

text \<open>
  \<^verbatim>\<open>INSERT INTO relationships\<close>: the primary key must be new and, with foreign keys
  enforced, both endpoints must be rows of \<^verbatim>\<open>memories\<close>. \<^verbatim>\<open>created_at\<close> takes its default,
  the clock.
\<close>

definition addRelationship ::
  "('j \<Rightarrow> string) \<Rightarrow> string \<Rightarrow> timestamp \<Rightarrow> database \<Rightarrow> string \<Rightarrow> string \<Rightarrow> string \<Rightarrow>
   real option \<Rightarrow> 'j option \<Rightarrow> (error + string) \<times> database" where
  "addRelationship JSON_stringify new_id now db fromMemoryId toMemoryId relationshipType' strength' meta =
     (if new_id \<in> set (map r_id (relationships db))
         \<or> (foreign_keys db \<and> (fromMemoryId \<notin> set (map m_id (memories db))
                                \<or> toMemoryId \<notin> set (map m_id (memories db))))
      then (Inl SqliteError, db)
      else (Inr new_id,
            db\<lparr>relationships := relationships db @
                 [\<lparr>r_id = new_id, r_from_memory_id = fromMemoryId, r_to_memory_id = toMemoryId,
                   r_relationship_type = relationshipType',
                   r_strength = (case strength' of None \<Rightarrow> 1 | Some s \<Rightarrow> s),
                   r_metadata = Some (case meta of None \<Rightarrow> ''{}'' | Some j \<Rightarrow> JSON_stringify j),
                   r_created_at = now\<rparr>]\<rparr>))"

definition updateRelationship ::
  "('j \<Rightarrow> string) \<Rightarrow> database \<Rightarrow> string \<Rightarrow> real option \<Rightarrow> 'j option \<Rightarrow> bool \<times> database" where
  "updateRelationship JSON_stringify db ident strength' meta =
     (if strength' = None \<and> meta = None then (True, db)
      else (0 < length (filter (\<lambda>r. r_id r = ident) (relationships db)),
            db\<lparr>relationships :=
                 map (\<lambda>r. if r_id r = ident
                           then r\<lparr>r_strength := (case strength' of None \<Rightarrow> r_strength r | Some s \<Rightarrow> s),
                                  r_metadata := (case meta of None \<Rightarrow> r_metadata r
                                                 | Some j \<Rightarrow> Some (JSON_stringify j))\<rparr>
                           else r)
                     (relationships db)\<rparr>))"

definition deleteRelationship :: "database \<Rightarrow> string \<Rightarrow> bool \<times> database" where
  "deleteRelationship db ident =
     (0 < length (filter (\<lambda>r. r_id r = ident) (relationships db)),
      db\<lparr>relationships := filter (\<lambda>r. r_id r \<noteq> ident) (relationships db)\<rparr>)"

subsection \<open>Traversal\<close>

text \<open>
  The state of the loop of \<^verbatim>\<open>getConnectedMemories\<close>: the set \<^verbatim>\<open>visited\<close>, the \<^verbatim>\<open>queue\<close>
  and the set \<^verbatim>\<open>connectedIds\<close>. A JavaScript \<^verbatim>\<open>Set\<close> enumerates in insertion order, so both
  sets are lists without repetition. \<^verbatim>\<open>maxDepth\<close> is a JavaScript number.
\<close>

type_synonym traversal = "string list \<times> (string \<times> nat) list \<times> string list"

definition memoryId_query :: "string \<Rightarrow> RelationshipQuery" where
  "memoryId_query ident =
     \<lparr>memoryId = Some ident, relationshipType = None, direction = None,
      minStrength = None, limit = None\<rparr>"

definition next_id :: "string \<Rightarrow> 'j Relationship \<Rightarrow> string" where
  "next_id ident rel =
     (if from_memory_id rel = ident then to_memory_id rel else from_memory_id rel)"

text \<open>The body of the \<^verbatim>\<open>for\<close> loop over the relationships of the node taken from the queue.\<close>

definition visit :: "string \<Rightarrow> nat \<Rightarrow> 'j Relationship \<Rightarrow> traversal \<Rightarrow> traversal" where
  "visit ident depth rel st =
     (case st of (visited, queue, connectedIds) \<Rightarrow>
        (if next_id ident rel \<notin> set visited
         then (visited @ [next_id ident rel],
               queue @ [(next_id ident rel, depth + 1)],
               connectedIds @ [next_id ident rel])
         else st))"

text \<open>
  The loop ends because every round either takes a node from the queue without adding one
  or marks a new endpoint of some relationship as visited; the endpoints are finitely many.
\<close>

definition endpoints :: "database \<Rightarrow> string set" where
  "endpoints db = set (map r_from_memory_id (relationships db)) \<union> set (map r_to_memory_id (relationships db))"

lemma try_map_Inr_set:
  "try_map f xs = Inr ys \<Longrightarrow> y \<in> set ys \<Longrightarrow> \<exists>x\<in>set xs. f x = Inr y"
  by (induction xs arbitrary: ys) (auto split: sum.splits)

lemma set_sql_limit: "sql_limit n xs = Inr ys \<Longrightarrow> set ys \<subseteq> set xs"
  by (auto simp: sql_limit_def split: if_splits dest: in_set_takeD)

lemma set_order_by_desc [simp]: "set (order_by_desc k xs) = set xs"
  by (simp add: order_by_desc_def)

lemma toRelationship_fields:
  "toRelationship JSON_parse row = Inr rel \<Longrightarrow>
     from_memory_id rel = r_from_memory_id row \<and> to_memory_id rel = r_to_memory_id row \<and> strength rel = r_strength row"
  by (auto simp: toRelationship_def split: sum.splits)

lemma relationship_rows_set:
  assumes "relationship_rows db query = Inr rows" and "row \<in> set rows"
  shows "row \<in> set (relationships db) \<and> where_clause query row"
proof -
  have "row \<in> set (order_by_desc (\<lambda>r. (r_strength r, r_created_at r))
               (filter (where_clause query) (relationships db)))"
    by (rule subsetD [OF set_sql_limit [OF assms(1) [unfolded relationship_rows_def]] assms(2)])
  then show ?thesis by simp
qed

lemma getRelationships_rows:
  assumes "getRelationships JSON_parse db query = Inr rels" and "rel \<in> set rels"
  shows "\<exists>row\<in>set (relationships db). where_clause query row \<and> toRelationship JSON_parse row = Inr rel"
proof (cases "relationship_rows db query")
  case (Inl e)
  with assms(1) show ?thesis by (simp add: getRelationships_def)
next
  case (Inr rows)
  with assms(1) have tm: "try_map (toRelationship JSON_parse) rows = Inr rels"
    by (simp add: getRelationships_def)
  from try_map_Inr_set [OF tm assms(2)] obtain row where
    row: "row \<in> set rows" and conv: "toRelationship JSON_parse row = Inr rel"
    by blast
  from relationship_rows_set [OF Inr row] conv show ?thesis by blast
qed

lemma getRelationships_endpoints:
  assumes "getRelationships JSON_parse db query = Inr rels" and "rel \<in> set rels"
  shows "next_id ident rel \<in> endpoints db"
proof -
  from getRelationships_rows [OF assms] obtain row where
    row: "row \<in> set (relationships db)" "toRelationship JSON_parse row = Inr rel" by blast
  from toRelationship_fields [OF row(2)] have
    "from_memory_id rel = r_from_memory_id row" "to_memory_id rel = r_to_memory_id row" by simp_all
  with row(1) show ?thesis
    by (simp add: endpoints_def next_id_def)
qed

lemma visit_seen:
  "next_id ident rel \<in> set visited \<Longrightarrow>
     visit ident depth rel (visited, queue, connectedIds) = (visited, queue, connectedIds)"
  by (simp add: visit_def)

lemma visit_unseen:
  "next_id ident rel \<notin> set visited \<Longrightarrow>
     visit ident depth rel (visited, queue, connectedIds) =
       (visited @ [next_id ident rel], queue @ [(next_id ident rel, depth + 1)],
        connectedIds @ [next_id ident rel])"
  by (simp add: visit_def)

lemma fold_visit:
  "\<exists>new. fold (visit ident depth) rels (visited, queue, connectedIds) =
           (visited @ new, queue @ map (\<lambda>n. (n, depth + 1)) new, connectedIds @ new)
         \<and> set new = next_id ident ` set rels - set visited \<and> distinct new"
proof (induction rels arbitrary: visited queue connectedIds)
  case Nil
  show ?case by simp
next
  case (Cons rel rels)
  show ?case
  proof (cases "next_id ident rel \<in> set visited")
    case True
    from Cons.IH [of visited queue connectedIds] obtain new where new:
      "fold (visit ident depth) rels (visited, queue, connectedIds) =
           (visited @ new, queue @ map (\<lambda>n. (n, depth + 1)) new, connectedIds @ new)"
      "set new = next_id ident ` set rels - set visited" "distinct new" by blast
    have "fold (visit ident depth) (rel # rels) (visited, queue, connectedIds) =
           (visited @ new, queue @ map (\<lambda>n. (n, depth + 1)) new, connectedIds @ new)"
      using True new(1) by (simp add: visit_seen)
    moreover have "set new = next_id ident ` set (rel # rels) - set visited"
      using True new(2) by auto
    ultimately show ?thesis using new(3) by blast
  next
    case False
    let ?n = "next_id ident rel"
    from Cons.IH [of "visited @ [?n]" "queue @ [(?n, depth + 1)]" "connectedIds @ [?n]"]
    obtain new where new:
      "fold (visit ident depth) rels (visited @ [?n], queue @ [(?n, depth + 1)], connectedIds @ [?n]) =
         ((visited @ [?n]) @ new, (queue @ [(?n, depth + 1)]) @ map (\<lambda>n. (n, depth + 1)) new,
          (connectedIds @ [?n]) @ new)"
      "set new = next_id ident ` set rels - set (visited @ [?n])" "distinct new" by blast
    have "fold (visit ident depth) (rel # rels) (visited, queue, connectedIds) =
           (visited @ (?n # new), queue @ map (\<lambda>n. (n, depth + 1)) (?n # new), connectedIds @ (?n # new))"
      using False new(1) by (simp add: visit_unseen)
    moreover have "set (?n # new) = next_id ident ` set (rel # rels) - set visited"
      using False new(2) by auto
    moreover have "distinct (?n # new)" using new(2,3) by auto
    ultimately show ?thesis by blast
  qed
qed

text \<open>
  The \<^verbatim>\<open>while\<close> loop: \<^verbatim>\<open>queue.shift()\<close>, \<^verbatim>\<open>if (depth >= maxDepth) continue\<close>, then the
  relationships of the node and the \<^verbatim>\<open>for\<close> loop over them.
\<close>

function traverse ::
  "(string \<Rightarrow> 'j option) \<Rightarrow> database \<Rightarrow> real \<Rightarrow> traversal \<Rightarrow> error + string list" where
  "traverse JSON_parse db maxDepth (visited, [], connectedIds) = Inr connectedIds"
| "traverse JSON_parse db maxDepth (visited, (ident, depth) # queue, connectedIds) =
     (if maxDepth \<le> real depth then traverse JSON_parse db maxDepth (visited, queue, connectedIds)
      else (case getRelationships JSON_parse db (memoryId_query ident) of
              Inl e \<Rightarrow> Inl e
            | Inr rels \<Rightarrow>
                traverse JSON_parse db maxDepth
                  (fold (visit ident depth) rels (visited, queue, connectedIds))))"
  by pat_completeness auto
termination
proof (relation "measures [\<lambda>(JSON_parse, db, maxDepth, visited, queue, connectedIds). card (endpoints db - set visited),
                           \<lambda>(JSON_parse, db, maxDepth, visited, queue, connectedIds). length queue]", goal_cases)
  case 1
  show ?case by simp
next
  case (2 JSON_parse db maxDepth visited ident depth queue connectedIds)
  show ?case by simp
next
  case (3 JSON_parse db maxDepth visited ident depth queue connectedIds rels)
  then have gr: "getRelationships JSON_parse db (memoryId_query ident) = Inr rels" by blast
  from fold_visit [of ident depth rels visited queue connectedIds] obtain new where new:
    "fold (visit ident depth) rels (visited, queue, connectedIds) =
       (visited @ new, queue @ map (\<lambda>n. (n, depth + 1)) new, connectedIds @ new)"
    "set new = next_id ident ` set rels - set visited" by blast
  have fin: "finite (endpoints db)" by (simp add: endpoints_def)
  show ?case
  proof (cases "new = []")
    case True
    with new(1) show ?thesis by simp
  next
    case False
    then obtain x where x: "x \<in> set new" by (cases new) auto
    with new(2) obtain rel where rel: "rel \<in> set rels" "x = next_id ident rel" "x \<notin> set visited"
      by blast
    have xe: "x \<in> endpoints db"
      unfolding rel(2) by (rule getRelationships_endpoints [OF gr rel(1)])
    have "endpoints db - set (visited @ new) \<subseteq> endpoints db - set visited" by auto
    moreover have "x \<in> endpoints db - set visited" using xe rel(3) by simp
    moreover have "x \<notin> endpoints db - set (visited @ new)" using x by simp
    ultimately have "endpoints db - set (visited @ new) \<subset> endpoints db - set visited"
      by blast
    then have "card (endpoints db - set (visited @ new)) < card (endpoints db - set visited)"
      using fin by (simp add: psubset_card_mono)
    with new(1) show ?thesis by simp
  qed
qed

text \<open>
  \<^verbatim>\<open>getConnectedMemories(memoryId, maxDepth = 2)\<close>: the ids reached, each read with
  \<^verbatim>\<open>getMemory\<close>; an id without a row is left out.
\<close>

definition getConnectedMemories ::
  "(string \<Rightarrow> 'j option) \<Rightarrow> database \<Rightarrow> string \<Rightarrow> real option \<Rightarrow> error + 'j Memory list" where
  "getConnectedMemories JSON_parse db memoryId' maxDepth =
     (case traverse JSON_parse db (case maxDepth of None \<Rightarrow> 2 | Some d \<Rightarrow> d)
             ([memoryId'], [(memoryId', 0)], []) of
        Inl e \<Rightarrow> Inl e
      | Inr ids \<Rightarrow>
          (case try_map (getMemory JSON_parse db) ids of
             Inl e \<Rightarrow> Inl e
           | Inr found \<Rightarrow> Inr (concat (map (\<lambda>m. case m of None \<Rightarrow> [] | Some x \<Rightarrow> [x]) found))))"

text \<open>
  What the statement of \<^verbatim>\<open>getRelationships({ memoryId: id })\<close> selects before \<^verbatim>\<open>LIMIT\<close>: the
  rows with \<open>id\<close> in either column whose strength is at least the default \<^verbatim>\<open>minStrength\<close>, 0;
  and the endpoint of such a row that \<open>next_id\<close> computes.
\<close>

definition incident :: "database \<Rightarrow> string \<Rightarrow> relationship_row list" where
  "incident db ident =
     filter (\<lambda>r. 0 \<le> r_strength r \<and> (r_from_memory_id r = ident \<or> r_to_memory_id r = ident))
       (relationships db)"

definition other_end :: "string \<Rightarrow> relationship_row \<Rightarrow> string" where
  "other_end ident r = (if r_from_memory_id r = ident then r_to_memory_id r else r_from_memory_id r)"

text \<open>
  A chain \<open>A\<close> - \<open>B\<close> - \<open>C\<close> - \<open>D\<close>: four different, non-empty ids, and a table
  \<^verbatim>\<open>relationships\<close> of exactly three rows, one between each consecutive pair in either
  direction, each of a strength of at least 0.
\<close>

definition links :: "relationship_row \<Rightarrow> string \<Rightarrow> string \<Rightarrow> bool" where
  "links r x y =
     ((r_from_memory_id r = x \<and> r_to_memory_id r = y) \<or> (r_from_memory_id r = y \<and> r_to_memory_id r = x))"

definition chain4 ::
  "database \<Rightarrow> string \<Rightarrow> string \<Rightarrow> string \<Rightarrow> string \<Rightarrow>
   relationship_row \<Rightarrow> relationship_row \<Rightarrow> relationship_row \<Rightarrow> bool" where
  "chain4 db A B C D r1 r2 r3 =
     (distinct [A, B, C, D] \<and> A \<noteq> [] \<and> B \<noteq> [] \<and> C \<noteq> [] \<and> D \<noteq> []
      \<and> set (relationships db) = {r1, r2, r3} \<and> length (relationships db) = 3
      \<and> links r1 A B \<and> links r2 B C \<and> links r3 C D
      \<and> 0 \<le> r_strength r1 \<and> 0 \<le> r_strength r2 \<and> 0 \<le> r_strength r3)"

section \<open>A runtime for the examples\<close>

text \<open>
  The theorems below that speak of \<open>JSON_parse\<close> and \<open>JSON_stringify\<close> hold for every
  runtime. To run the service on examples, one instance is defined here: JavaScript values
  that are documents of 8-bit strings, integers, \<^verbatim>\<open>Infinity\<close>, booleans, \<^verbatim>\<open>null\<close>, arrays
  and objects, an object being the list of its members in the order they were added.
  \<open>example_stringify\<close> prints such a value as \<^verbatim>\<open>JSON.stringify\<close> does; \<^verbatim>\<open>Infinity\<close>
  (the number that \<^verbatim>\<open>JSON.parse\<close> returns for a literal beyond the doubles, such as
  \<^verbatim>\<open>1e400\<close>), for which JSON has no notation, is printed as \<^verbatim>\<open>null\<close>, like \<^verbatim>\<open>NaN\<close>.
  \<open>example_parse\<close> reads the texts whose values are integers, strings, booleans,
  \<^verbatim>\<open>null\<close>, arrays and objects of these, and refuses every other text. It stands for \<^verbatim>\<open>JSON.parse\<close>
  on the texts of the examples only: it is not \<^verbatim>\<open>JSON.parse\<close> on a text with a number
  that has a fraction, an exponent or more than 15 digits, with a character escape above
  \<^verbatim>\<open>00ff\<close>, or with an object key that is an array index (which JavaScript moves to the
  front), and no example holds such a text.
\<close>

datatype json =
    JNull
  | JBool bool
  | JNum int
  | JInfinity
  | JStr string
  | JArr "json list"
  | JObj "(string \<times> json) list"

subsection \<open>Printing\<close>

definition digit_char :: "nat \<Rightarrow> char" where
  "digit_char d = char_of (48 + d)"

fun show_nat :: "nat \<Rightarrow> string" where
  "show_nat n = (if n < 10 then [digit_char n] else show_nat (n div 10) @ [digit_char (n mod 10)])"

declare show_nat.simps [simp del]

definition show_int :: "int \<Rightarrow> string" where
  "show_int i = (if i < 0 then CHR ''-'' # show_nat (nat (- i)) else show_nat (nat i))"

definition hex_char :: "nat \<Rightarrow> char" where
  "hex_char d = (if d < 10 then char_of (48 + d) else char_of (87 + d))"

text \<open>
  In a string the quote, the backslash and the control characters are escaped;
  \<open>CHR 0x22\<close> is the double quote and \<open>CHR 0x5C\<close> the backslash.
\<close>

definition escape_char :: "char \<Rightarrow> string" where
  "escape_char c =
     (if c = CHR 0x22 then [CHR 0x5C, CHR 0x22]
      else if c = CHR 0x5C then [CHR 0x5C, CHR 0x5C]
      else if c = CHR 0x08 then [CHR 0x5C, CHR ''b'']
      else if c = CHR 0x0C then [CHR 0x5C, CHR ''f'']
      else if c = CHR 0x0A then [CHR 0x5C, CHR ''n'']
      else if c = CHR 0x0D then [CHR 0x5C, CHR ''r'']
      else if c = CHR 0x09 then [CHR 0x5C, CHR ''t'']
      else if (of_char c :: nat) < 32
        then [CHR 0x5C, CHR ''u'', CHR ''0'', CHR ''0'',
              hex_char (of_char c div 16), hex_char (of_char c mod 16)]
      else [c])"

definition quote :: "string \<Rightarrow> string" where
  "quote s = CHR 0x22 # concat (map escape_char s) @ [CHR 0x22]"

fun commas :: "string list \<Rightarrow> string" where
  "commas [] = []"
| "commas [x] = x"
| "commas (x # y # ys) = x @ CHR '','' # commas (y # ys)"

fun example_stringify :: "json \<Rightarrow> string" where
  "example_stringify JNull = ''null''"
| "example_stringify JInfinity = ''null''"
| "example_stringify (JBool b) = (if b then ''true'' else ''false'')"
| "example_stringify (JNum i) = show_int i"
| "example_stringify (JStr s) = quote s"
| "example_stringify (JArr vs) = CHR ''['' # commas (map example_stringify vs) @ '']''"
| "example_stringify (JObj kvs) =
     CHR ''{'' # commas (map (\<lambda>kv. quote (fst kv) @ CHR '':'' # example_stringify (snd kv)) kvs) @ ''}''"

subsection \<open>Parsing\<close>

definition is_ws :: "char \<Rightarrow> bool" where
  "is_ws c = (c = CHR '' '' \<or> c = CHR 0x09 \<or> c = CHR 0x0A \<or> c = CHR 0x0D)"

definition skip_ws :: "string \<Rightarrow> string" where
  "skip_ws = dropWhile is_ws"

definition is_digit :: "char \<Rightarrow> bool" where
  "is_digit c = (48 \<le> (of_char c :: nat) \<and> (of_char c :: nat) \<le> 57)"

definition digit_val :: "char \<Rightarrow> nat" where
  "digit_val c = of_char c - 48"

definition digits_val :: "string \<Rightarrow> nat" where
  "digits_val ds = foldl (\<lambda>a c. 10 * a + digit_val c) 0 ds"

definition hex_val :: "char \<Rightarrow> nat option" where
  "hex_val c =
     (let n = (of_char c :: nat) in
      if 48 \<le> n \<and> n \<le> 57 then Some (n - 48)
      else if 97 \<le> n \<and> n \<le> 102 then Some (n - 87)
      else if 65 \<le> n \<and> n \<le> 70 then Some (n - 55)
      else None)"

definition unescape :: "char \<Rightarrow> char option" where
  "unescape e =
     (if e = CHR 0x22 then Some (CHR 0x22)
      else if e = CHR 0x5C then Some (CHR 0x5C)
      else if e = CHR ''/'' then Some (CHR ''/'')
      else if e = CHR ''b'' then Some (CHR 0x08)
      else if e = CHR ''f'' then Some (CHR 0x0C)
      else if e = CHR ''n'' then Some (CHR 0x0A)
      else if e = CHR ''r'' then Some (CHR 0x0D)
      else if e = CHR ''t'' then Some (CHR 0x09)
      else None)"

definition unicode_escape :: "char \<Rightarrow> char \<Rightarrow> char \<Rightarrow> char \<Rightarrow> char option" where
  "unicode_escape a b c d =
     (case (hex_val a, hex_val b, hex_val c, hex_val d) of
        (Some h3, Some h2, Some h1, Some h0) \<Rightarrow>
          (if h3 = 0 \<and> h2 = 0 then Some (char_of (16 * h1 + h0)) else None)
      | _ \<Rightarrow> None)"

definition cons_chars :: "char \<Rightarrow> (string \<times> string) option \<Rightarrow> (string \<times> string) option" where
  "cons_chars c res = (case res of None \<Rightarrow> None | Some (s, rest) \<Rightarrow> Some (c # s, rest))"

text \<open>The characters of a string literal after its opening quote, up to the closing one.\<close>

fun parse_chars :: "string \<Rightarrow> (string \<times> string) option" where
  "parse_chars [] = None"
| "parse_chars (c # r) =
     (if c = CHR 0x22 then Some ([], r)
      else if c = CHR 0x5C then
        (case r of
           [] \<Rightarrow> None
         | e # r1 \<Rightarrow>
             (if e = CHR ''u'' then
                (case r1 of
                   a # b # c # d # r2 \<Rightarrow>
                     (case unicode_escape a b c d of
                        None \<Rightarrow> None
                      | Some x \<Rightarrow> cons_chars x (parse_chars r2))
                 | _ \<Rightarrow> None)
              else
                (case unescape e of
                   None \<Rightarrow> None
                 | Some x \<Rightarrow> cons_chars x (parse_chars r1))))
      else if (of_char c :: nat) < 32 then None
      else cons_chars c (parse_chars r))"

definition parse_number :: "string \<Rightarrow> (json \<times> string) option" where
  "parse_number s =
     (let neg = (case s of c # _ \<Rightarrow> c = CHR ''-'' | [] \<Rightarrow> False);
          s1 = (if neg then tl s else s);
          ds = takeWhile is_digit s1;
          rest = dropWhile is_digit s1
      in if ds = [] \<or> (1 < length ds \<and> hd ds = CHR ''0'') then None
         else if (case rest of c # _ \<Rightarrow> c = CHR ''.'' \<or> c = CHR ''e'' \<or> c = CHR ''E'' | [] \<Rightarrow> False)
           then None
         else Some (JNum (if neg then - int (digits_val ds) else int (digits_val ds)), rest))"

definition parse_literal :: "string \<Rightarrow> (json \<times> string) option" where
  "parse_literal s =
     (if take 4 s = ''null'' then Some (JNull, drop 4 s)
      else if take 4 s = ''true'' then Some (JBool True, drop 4 s)
      else if take 5 s = ''false'' then Some (JBool False, drop 5 s)
      else None)"

text \<open>
  A later member replaces the value of an earlier member with the same key, which keeps
  its place: what assigning the members to a JavaScript object one after the other does.
\<close>

fun set_member :: "string \<Rightarrow> json \<Rightarrow> (string \<times> json) list \<Rightarrow> (string \<times> json) list" where
  "set_member k v [] = [(k, v)]"
| "set_member k v ((k', v') # kvs) =
     (if k = k' then (k, v) # kvs else (k', v') # set_member k v kvs)"

definition build_object :: "(string \<times> json) list \<Rightarrow> json" where
  "build_object kvs = JObj (fold (\<lambda>kv acc. set_member (fst kv) (snd kv) acc) kvs [])"

text \<open>
  Recursive descent over the text. The first argument bounds the number of nested and
  successive calls; \<open>example_parse\<close> starts with more than the text can need, every call
  consuming at least one character.
\<close>

fun parse_value :: "nat \<Rightarrow> string \<Rightarrow> (json \<times> string) option"
  and parse_elements :: "nat \<Rightarrow> string \<Rightarrow> (json list \<times> string) option"
  and parse_members :: "nat \<Rightarrow> string \<Rightarrow> ((string \<times> json) list \<times> string) option"
where
  "parse_value 0 s = None"
| "parse_value (Suc n) s =
     (case skip_ws s of
        [] \<Rightarrow> None
      | c # r \<Rightarrow>
          (if c = CHR ''{'' then
             (case skip_ws r of
                [] \<Rightarrow> None
              | c' # r' \<Rightarrow>
                  (if c' = CHR ''}'' then Some (JObj [], r')
                   else (case parse_members n (c' # r') of
                           None \<Rightarrow> None
                         | Some (kvs, rest) \<Rightarrow> Some (build_object kvs, rest))))
           else if c = CHR ''['' then
             (case skip_ws r of
                [] \<Rightarrow> None
              | c' # r' \<Rightarrow>
                  (if c' = CHR '']'' then Some (JArr [], r')
                   else (case parse_elements n (c' # r') of
                           None \<Rightarrow> None
                         | Some (vs, rest) \<Rightarrow> Some (JArr vs, rest))))
           else if c = CHR 0x22 then
             (case parse_chars r of
                None \<Rightarrow> None
              | Some (str, rest) \<Rightarrow> Some (JStr str, rest))
           else if c = CHR ''-'' \<or> is_digit c then parse_number (c # r)
           else parse_literal (c # r)))"
| "parse_elements 0 s = None"
| "parse_elements (Suc n) s =
     (case parse_value n s of
        None \<Rightarrow> None
      | Some (v, r) \<Rightarrow>
          (case skip_ws r of
             [] \<Rightarrow> None
           | c # r' \<Rightarrow>
               (if c = CHR '','' then
                  (case parse_elements n r' of
                     None \<Rightarrow> None
                   | Some (vs, rest) \<Rightarrow> Some (v # vs, rest))
                else if c = CHR '']'' then Some ([v], r')
                else None)))"
| "parse_members 0 s = None"
| "parse_members (Suc n) s =
     (case skip_ws s of
        [] \<Rightarrow> None
      | q # r \<Rightarrow>
          (if q \<noteq> CHR 0x22 then None
           else
             (case parse_chars r of
                None \<Rightarrow> None
              | Some (k, r1) \<Rightarrow>
                  (case skip_ws r1 of
                     [] \<Rightarrow> None
                   | c # r2 \<Rightarrow>
                       (if c \<noteq> CHR '':'' then None
                        else
                          (case parse_value n r2 of
                             None \<Rightarrow> None
                           | Some (v, r3) \<Rightarrow>
                               (case skip_ws r3 of
                                  [] \<Rightarrow> None
                                | c' # r4 \<Rightarrow>
                                    (if c' = CHR '','' then
                                       (case parse_members n r4 of
                                          None \<Rightarrow> None
                                        | Some (kvs, rest) \<Rightarrow> Some ((k, v) # kvs, rest))
                                     else if c' = CHR ''}'' then Some ([(k, v)], r4)
                                     else None))))))))"

definition example_parse :: "string \<Rightarrow> json option" where
  "example_parse s =
     (case parse_value (Suc (length s)) s of
        None \<Rightarrow> None
      | Some (v, rest) \<Rightarrow> (if skip_ws rest = [] then Some v else None))"

section \<open>Example databases\<close>

text \<open>
  A provider that answers and one that is down, and the databases that a few calls of the
  service build from an empty file.
\<close>

definition provider_ok :: "string \<Rightarrow> error + embedding" where
  "provider_ok t = Inr (replicate 768 (real (length t)))"

definition provider_down :: "string \<Rightarrow> error + embedding" where
  "provider_down t = Inl (EmbeddingError ''Failed to generate embedding'')"

definition db0 :: database where
  "db0 = initializeDatabase True new_file"

definition db1 :: database where
  "db1 = snd (addMemory provider_ok example_stringify ''a'' 1 db0 ''Alpha'' None)"

definition db2 :: database where
  "db2 = snd (addMemory provider_ok example_stringify ''b'' 2 db1 ''Beta''
                (Some (JObj [(''type'', JStr ''fact'')])))"

definition db3 :: database where
  "db3 = snd (addRelationship example_stringify ''r1'' 3 db2 ''a'' ''b'' ''relates_to'' (Some 0.8) None)"

text \<open>
  A memory is added while sqlite-vec is loaded and deleted in a later session in which it
  failed to load: the memory row is gone and its embedding row is still in the file when
  sqlite-vec loads again.
\<close>

definition orphan_db :: database where
  "orphan_db =
     initializeDatabase True
       (snd (deleteMemory
              (initializeDatabase False
                (snd (addMemory provider_ok example_stringify ''m1'' 1
                        (initializeDatabase True new_file) ''note'' None)))
              ''m1''))"

text \<open>A stand-in for \<^verbatim>\<open>vec_distance_cosine\<close>, which like it refuses vectors of different lengths.\<close>

definition example_distance :: "embedding \<Rightarrow> embedding \<Rightarrow> error + real" where
  "example_distance a b =
     (if length a = length b then Inr (\<bar>hd a - hd b\<bar> / 10) else Inl SqliteError)"

text \<open>A file in which the metadata of memory \<^verbatim>\<open>b\<close> was overwritten with text that is not JSON.\<close>

definition malformed_db :: database where
  "malformed_db =
     db2\<lparr>memories := map (\<lambda>row. if m_id row = ''b'' then row\<lparr>m_metadata := Some ''{oops''\<rparr> else row)
                         (memories db2)\<rparr>"

text \<open>Two memories linked by one relationship of strength \<open>-1\<close>.\<close>

definition db_weak :: database where
  "db_weak = snd (addRelationship example_stringify ''r1'' 3 db2 ''a'' ''b'' ''relates_to'' (Some (- 1)) None)"

text \<open>
  Four memories in a chain \<^verbatim>\<open>a\<close> - \<^verbatim>\<open>b\<close> - \<^verbatim>\<open>c\<close> - \<^verbatim>\<open>d\<close>, the middle relationship pointing
  backwards; and the same chain with a first relationship of strength \<open>-1\<close>.
\<close>

definition db_four :: database where
  "db_four =
     snd (addMemory provider_ok example_stringify ''d'' 5
       (snd (addMemory provider_ok example_stringify ''c'' 4 db2 ''Gamma'' None)) ''Delta'' None)"

definition db_chain :: database where
  "db_chain =
     snd (addRelationship example_stringify ''r3'' 8
       (snd (addRelationship example_stringify ''r2'' 7
         (snd (addRelationship example_stringify ''r1'' 6 db_four ''a'' ''b'' ''relates_to'' (Some 0.8) None))
         ''c'' ''b'' ''contains'' None None))
       ''c'' ''d'' ''relates_to'' (Some 0.5) None)"

definition db_chain_weak :: database where
  "db_chain_weak =
     snd (addRelationship example_stringify ''r3'' 8
       (snd (addRelationship example_stringify ''r2'' 7
         (snd (addRelationship example_stringify ''r1'' 6 db_four ''a'' ''b'' ''relates_to'' (Some (- 1)) None))
         ''c'' ''b'' ''contains'' None None))
       ''c'' ''d'' ''relates_to'' (Some 0.5) None)"


section \<open>Properties\<close>

subsection \<open>Unknown ids\<close>

lemma find_None_absent:
  "ident \<notin> set (map m_id (memories db)) \<Longrightarrow> find (\<lambda>row. m_id row = ident) (memories db) = None"
  by (auto simp: find_None_iff)

lemma getMemory_absent:
  "ident \<notin> set (map m_id (memories db)) \<Longrightarrow> getMemory JSON_parse db ident = Inr None"
  by (simp add: getMemory_def find_None_absent)

lemma filter_absent:
  "ident \<notin> set (map m_id (memories db)) \<Longrightarrow> filter (\<lambda>row. m_id row = ident) (memories db) = []"
  by (auto simp: filter_empty_conv)

lemma filter_absent_neq:
  "ident \<notin> set (map m_id (memories db)) \<Longrightarrow> filter (\<lambda>row. m_id row \<noteq> ident) (memories db) = memories db"
  by (auto simp: filter_id_conv)

text \<open>
  C8, as the code has it. For an id that is not in \<^verbatim>\<open>memories\<close>, \<open>getMemory\<close> returns null,
  \<open>updateMemory\<close> resolves to false and \<open>deleteMemory\<close> returns false; none of them raises.
  \<open>getMemory\<close> (which only reads) and \<open>updateMemory\<close> leave the database as it is;
  \<open>deleteMemory\<close> leaves \<^verbatim>\<open>memories\<close> and \<^verbatim>\<open>relationships\<close> as they are and, when
  sqlite-vec is loaded, deletes the row of \<^verbatim>\<open>memory_embeddings\<close> stored under that id:
  the database changes exactly when there is such a row.
\<close>

theorem unknown_id_is_not_found:
  assumes "ident \<notin> set (map m_id (memories db))"
  shows "getMemory JSON_parse db ident = Inr None
       \<and> updateMemory generateEmbedding JSON_parse JSON_stringify now db ident c meta = (Inr False, db)
       \<and> fst (deleteMemory db ident) = False
       \<and> memories (snd (deleteMemory db ident)) = memories db
       \<and> relationships (snd (deleteMemory db ident)) = relationships db
       \<and> memory_embeddings (snd (deleteMemory db ident)) =
           (if vec_loaded db then filter (\<lambda>e. fst e \<noteq> ident) (memory_embeddings db)
            else memory_embeddings db)
       \<and> (if ident \<in> set (map fst (memory_embeddings db)) \<and> vec_loaded db
          then snd (deleteMemory db ident) \<noteq> db
          else snd (deleteMemory db ident) = db)"
proof -
  have g: "getMemory JSON_parse db ident = Inr None" by (rule getMemory_absent [OF assms])
  have u: "updateMemory generateEmbedding JSON_parse JSON_stringify now db ident c meta = (Inr False, db)"
    by (simp add: updateMemory_def g)
  have same: "filter (\<lambda>e. fst e \<noteq> ident) (memory_embeddings db) = memory_embeddings db"
    if "ident \<notin> set (map fst (memory_embeddings db))"
    using that by (auto simp: filter_id_conv)
  have diff: "filter (\<lambda>e. fst e \<noteq> ident) (memory_embeddings db) \<noteq> memory_embeddings db"
    if "ident \<in> set (map fst (memory_embeddings db))"
    using that by (auto simp: filter_id_conv)
  have d: "snd (deleteMemory db ident) =
      (if vec_loaded db
       then db\<lparr>memory_embeddings := filter (\<lambda>e. fst e \<noteq> ident) (memory_embeddings db)\<rparr>
       else db)"
    by (simp add: deleteMemory_def Let_def filter_absent [OF assms] filter_absent_neq [OF assms])
  have neq: "db\<lparr>memory_embeddings := xs\<rparr> \<noteq> db" if "xs \<noteq> memory_embeddings db" for xs
  proof
    assume "db\<lparr>memory_embeddings := xs\<rparr> = db"
    then have "memory_embeddings (db\<lparr>memory_embeddings := xs\<rparr>) = memory_embeddings db" by simp
    with that show False by simp
  qed
  have f: "fst (deleteMemory db ident) = False"
    by (simp add: deleteMemory_def Let_def filter_absent [OF assms])
  show ?thesis
    using g u f d same diff neq by (auto simp: d)
qed

theorem unknown_id_is_not_found_witness:
  "''zz'' \<notin> set (map m_id (memories db3))
   \<and> getMemory example_parse db3 ''zz'' = Inr None
   \<and> updateMemory provider_ok example_parse example_stringify 9 db3 ''zz'' (Some ''new'') None
       = (Inr False, db3)
   \<and> deleteMemory db3 ''zz'' = (False, db3)"
proof -
  have a: "''zz'' \<notin> set (map m_id (memories db3))" by code_simp
  have b: "''zz'' \<notin> set (map fst (memory_embeddings db3))" by code_simp
  from unknown_id_is_not_found
         [OF a, of example_parse provider_ok example_stringify 9 "Some ''new''" None] a b
  show ?thesis by (simp add: prod_eq_iff)
qed

text \<open>
  C8 as stated fails: in \<open>orphan_db\<close> the id \<^verbatim>\<open>m1\<close> is not in \<^verbatim>\<open>memories\<close>, and
  \<open>deleteMemory\<close> returns false and removes the embedding row of \<^verbatim>\<open>m1\<close>.
\<close>

theorem deleteMemory_unknown_id_counterexample:
  "memories orphan_db = []
   \<and> memory_embeddings orphan_db = [(''m1'', replicate 768 4)]
   \<and> fst (deleteMemory orphan_db ''m1'') = False
   \<and> memory_embeddings (snd (deleteMemory orphan_db ''m1'')) = []"
  by code_simp

subsection \<open>Deleting a memory\<close>

lemma valid_limit_100: "valid_limit 100"
  by (simp add: valid_limit_def)

lemma relationship_rows_none:
  assumes "filter (where_clause query) (relationships db) = []"
  shows "relationship_rows db query =
           (if valid_limit (case limit query of None \<Rightarrow> 100 | Some l \<Rightarrow> l) then Inr []
            else Inl SqliteError)"
  by (simp add: relationship_rows_def assms order_by_desc_def sql_limit_def)

text \<open>
  C1. With foreign keys enforced, \<open>deleteMemory A\<close> for a stored memory \<open>A\<close> removes the
  relationships that have \<open>A\<close> as their from- or to-endpoint and no others; afterwards no
  relationship references \<open>A\<close>, and \<open>getRelationships\<close> with \<open>memoryId = A\<close> returns the
  empty list: for the query \<^verbatim>\<open>{ memoryId: A }\<close>, and for every query with that \<open>memoryId\<close>
  whose limit SQLite accepts (with any other limit the statement raises, whatever the
  table holds). (Ids are UUIDs and so not empty; \<^verbatim>\<open>if (memoryId)\<close> takes an empty id for no
  filter at all.)
\<close>

theorem deleteMemory_cascades:
  assumes "foreign_keys db" and "A \<in> set (map m_id (memories db))" and "A \<noteq> []"
    and "memoryId query = Some A"
  shows "relationships (snd (deleteMemory db A)) =
           filter (\<lambda>r. r_from_memory_id r \<noteq> A \<and> r_to_memory_id r \<noteq> A) (relationships db)
       \<and> (\<forall>r \<in> set (relationships (snd (deleteMemory db A))).
             r_from_memory_id r \<noteq> A \<and> r_to_memory_id r \<noteq> A)
       \<and> getRelationships JSON_parse (snd (deleteMemory db A)) (memoryId_query A) = Inr []
       \<and> getRelationships JSON_parse (snd (deleteMemory db A)) query =
           (if valid_limit (case limit query of None \<Rightarrow> 100 | Some l \<Rightarrow> l) then Inr []
            else Inl SqliteError)"
proof -
  from assms(2) have "filter (\<lambda>row. m_id row = A) (memories db) \<noteq> []"
    by (auto simp: filter_empty_conv)
  with assms(1) have rels: "relationships (snd (deleteMemory db A)) =
           filter (\<lambda>r. r_from_memory_id r \<noteq> A \<and> r_to_memory_id r \<noteq> A) (relationships db)"
    by (simp add: deleteMemory_def Let_def)
  have none: "filter (where_clause q) (relationships (snd (deleteMemory db A))) = []"
    if "memoryId q = Some A" for q
    unfolding rels using assms(3) that
    by (auto simp: filter_empty_conv where_clause_def truthy_def split: option.splits direction.splits)
  have q: "getRelationships JSON_parse (snd (deleteMemory db A)) query =
           (if valid_limit (case limit query of None \<Rightarrow> 100 | Some l \<Rightarrow> l) then Inr []
            else Inl SqliteError)"
    by (simp add: getRelationships_def relationship_rows_none [OF none [OF assms(4)]])
  have m: "memoryId (memoryId_query A) = Some A" "limit (memoryId_query A) = None"
    by (simp_all add: memoryId_query_def)
  have "getRelationships JSON_parse (snd (deleteMemory db A)) (memoryId_query A) = Inr []"
    by (simp add: getRelationships_def relationship_rows_none [OF none [OF m(1)]] m(2) valid_limit_100)
  with rels q show ?thesis by simp
qed

theorem deleteMemory_cascades_witness:
  "foreign_keys db3 \<and> ''a'' \<in> set (map m_id (memories db3))
   \<and> r_from_memory_id (hd (relationships db3)) = ''a''
   \<and> relationships (snd (deleteMemory db3 ''a'')) = []
   \<and> getRelationships example_parse (snd (deleteMemory db3 ''a'')) (memoryId_query ''a'') = Inr []"
proof -
  have a: "foreign_keys db3" by code_simp
  have b: "''a'' \<in> set (map m_id (memories db3))" by code_simp
  have c: "''a'' \<noteq> []" by simp
  have d: "memoryId (memoryId_query ''a'') = Some ''a''" by (simp add: memoryId_query_def)
  have e: "r_from_memory_id (hd (relationships db3)) = ''a''" by code_simp
  have f: "filter (\<lambda>r. r_from_memory_id r \<noteq> ''a'' \<and> r_to_memory_id r \<noteq> ''a'') (relationships db3) = []"
    by code_simp
  from deleteMemory_cascades [OF a b c d, of example_parse] f a b e show ?thesis by simp
qed

subsection \<open>A provider that fails\<close>

text \<open>
  C10. When \<open>generateEmbedding\<close> fails on the content, \<open>addMemory\<close> rejects with that error
  and the database is as before: no row of \<^verbatim>\<open>memories\<close>, no row of \<^verbatim>\<open>memory_embeddings\<close>.
  \<open>updateMemory\<close> with that content leaves the database as before in every case; it rejects
  with the error of the provider whenever the memory exists and can be read, which is when
  the provider is called at all (for an unknown id it resolves to false, and it rejects
  with the error of \<open>getMemory\<close> where that raises).
\<close>

theorem embedding_failure_leaves_state:
  assumes "generateEmbedding c = Inl e"
  shows "addMemory generateEmbedding JSON_stringify new_id now db c meta = (Inl e, db)
       \<and> snd (updateMemory generateEmbedding JSON_parse JSON_stringify now db ident (Some c) meta') = db
       \<and> (case getMemory JSON_parse db ident of
            Inr (Some m) \<Rightarrow>
              fst (updateMemory generateEmbedding JSON_parse JSON_stringify now db ident (Some c) meta') = Inl e
          | Inr None \<Rightarrow>
              fst (updateMemory generateEmbedding JSON_parse JSON_stringify now db ident (Some c) meta') = Inr False
          | Inl e' \<Rightarrow>
              fst (updateMemory generateEmbedding JSON_parse JSON_stringify now db ident (Some c) meta') = Inl e')"
  using assms by (simp add: addMemory_def updateMemory_def split: sum.splits option.splits)

theorem embedding_failure_leaves_state_witness:
  "provider_down ''Gamma'' = Inl (EmbeddingError ''Failed to generate embedding'')
   \<and> addMemory provider_down example_stringify ''c'' 7 db3 ''Gamma'' None
       = (Inl (EmbeddingError ''Failed to generate embedding''), db3)
   \<and> updateMemory provider_down example_parse example_stringify 7 db3 ''a'' (Some ''Gamma'')
         (Some (JObj []))
       = (Inl (EmbeddingError ''Failed to generate embedding''), db3)"
proof -
  have a: "provider_down ''Gamma'' = Inl (EmbeddingError ''Failed to generate embedding'')"
    by (simp add: provider_down_def)
  have b: "getMemory example_parse db3 ''a'' =
             Inr (Some \<lparr>mem_id = ''a'', content = ''Alpha'', metadata = JObj [],
                        created_at = 1, updated_at = 1\<rparr>)"
    by code_simp
  from embedding_failure_leaves_state
         [where generateEmbedding = provider_down and c = "''Gamma''" and new_id = "''c''"
            and now = 7 and db = db3 and meta = None and ident = "''a''"
            and meta' = "Some (JObj [])" and JSON_parse = example_parse
            and JSON_stringify = example_stringify, OF a] a b
  show ?thesis by (simp add: prod_eq_iff)
qed

subsection \<open>Updating a relationship\<close>

text \<open>
  C5, at an id that no relationship has. \<open>updateRelationship\<close> with neither a strength nor
  metadata returns true before it looks at the table; \<open>updateMemory\<close> looks the id up first
  and resolves to false.
\<close>

theorem updateRelationship_missing_id:
  "updateRelationship example_stringify db3 ''no-such-id'' None None = (True, db3)
   \<and> filter (\<lambda>r. r_id r = ''no-such-id'') (relationships db3) = []
   \<and> updateMemory provider_ok example_parse example_stringify 9 db3 ''no-such-id'' None None
       = (Inr False, db3)"
  by code_simp

subsection \<open>Rows and results\<close>

lemma try_map_list_all2:
  "try_map f xs = Inr ys \<Longrightarrow> list_all2 (\<lambda>x y. f x = Inr y) xs ys"
  by (induction xs arbitrary: ys) (auto split: sum.splits)

lemma try_map_Inl:
  "try_map f xs = Inl e \<Longrightarrow> \<exists>x\<in>set xs. f x = Inl e"
  by (induction xs) (auto split: sum.splits)

lemma try_map_fails:
  "x \<in> set xs \<Longrightarrow> f x = Inl e \<Longrightarrow> \<exists>e'. try_map f xs = Inl e'"
  by (induction xs) (auto split: sum.splits)

lemma try_map_succeeds:
  "\<forall>x\<in>set xs. \<exists>y. f x = Inr y \<Longrightarrow> \<exists>ys. try_map f xs = Inr ys"
  by (induction xs) (auto split: sum.splits)

lemma toMemory_error: "toMemory JSON_parse row = Inl e \<Longrightarrow> e = SyntaxError"
  by (auto simp: toMemory_def parse_metadata_def split: option.splits sum.splits)


lemma toRelationship_cases:
  "toRelationship JSON_parse row = Inl SyntaxError \<or> (\<exists>rel. toRelationship JSON_parse row = Inr rel)"
  by (auto simp: toRelationship_def parse_metadata_def split: option.splits sum.splits)

lemma toMemory_fields:
  "toMemory JSON_parse row = Inr m \<Longrightarrow>
     mem_id m = m_id row \<and> content m = m_content row \<and> created_at m = m_created_at row
     \<and> updated_at m = m_updated_at row \<and> parse_metadata JSON_parse (m_metadata row) = Inr (metadata m)"
  by (auto simp: toMemory_def split: sum.splits)


lemma sql_limit_Inl: "sql_limit n xs = Inl e \<longleftrightarrow> \<not> valid_limit n \<and> e = SqliteError"
  by (auto simp: sql_limit_def)



lemma order_by_desc_sorted: "sorted (rev (map k (order_by_desc k xs)))"
  by (simp add: order_by_desc_def rev_map)

lemma set_order_by_asc [simp]: "set (order_by_asc k xs) = set xs"
  by (simp add: order_by_asc_def)

lemma length_order_by_desc [simp]: "length (order_by_desc k xs) = length xs"
  by (simp add: order_by_desc_def)

lemma desc_take_drop:
  assumes "x \<in> set (take n (order_by_desc k xs))" and "y \<in> set (drop n (order_by_desc k xs))"
  shows "k y \<le> k x"
proof -
  let ?zs = "order_by_desc k xs"
  have "sorted (rev (map k (take n ?zs @ drop n ?zs)))"
    using order_by_desc_sorted [of k xs] by simp
  then have "sorted (rev (map k (drop n ?zs)) @ rev (map k (take n ?zs)))"
    by (simp only: map_append rev_append)
  then show ?thesis using assms by (auto simp: sorted_append)
qed




lemma in_take_or_drop: "x \<in> set xs \<Longrightarrow> x \<in> set (take n xs) \<or> x \<in> set (drop n xs)"
  by (metis Un_iff append_take_drop_id set_append)

lemma drop_nonempty_length: "y \<in> set (drop n xs) \<Longrightarrow> length (take n xs) = n"
  by (cases "n \<le> length xs") auto



lemma try_map_toMemory_fails:
  assumes "x \<in> set xs" and "toMemory JSON_parse (f x) = Inl SyntaxError"
  shows "try_map (\<lambda>x. toMemory JSON_parse (f x)) xs = Inl SyntaxError"
proof -
  from try_map_fails [of x xs "\<lambda>x. toMemory JSON_parse (f x)", OF assms] obtain e'
    where e': "try_map (\<lambda>x. toMemory JSON_parse (f x)) xs = Inl e'" by blast
  then obtain y where "toMemory JSON_parse (f y) = Inl e'" by (blast dest: try_map_Inl)
  then have "e' = SyntaxError" by (rule toMemory_error)
  with e' show ?thesis by simp
qed


subsection \<open>The text scan\<close>














subsection \<open>Reading metadata\<close>

text \<open>
  C6, as the code has it. Reading a row parses its metadata text with \<^verbatim>\<open>JSON.parse\<close>:
  a null or empty column reads as what the text \<^verbatim>\<open>{}\<close> parses to, the empty mapping;
  text on which \<^verbatim>\<open>JSON.parse\<close> returns reads as the value returned; and text on which it
  throws makes \<open>toMemory\<close> raise the syntax error. So \<open>getMemory\<close> of that row raises, the
  text scan rejects when it selects the row, and the vector step raises when it selects
  the row (and \<open>searchMemories\<close> goes on to the text scan).
\<close>

theorem metadata_read:
  "(\<forall>empty. JSON_parse ''{}'' = Some empty
        \<and> (m_metadata row = None \<or> m_metadata row = Some []) \<longrightarrow>
      toMemory JSON_parse row =
        Inr \<lparr>mem_id = m_id row, content = m_content row, metadata = empty,
             created_at = m_created_at row, updated_at = m_updated_at row\<rparr>)
   \<and> (\<forall>t j. m_metadata row = Some t \<and> t \<noteq> [] \<and> JSON_parse t = Some j \<longrightarrow>
      toMemory JSON_parse row =
        Inr \<lparr>mem_id = m_id row, content = m_content row, metadata = j,
             created_at = m_created_at row, updated_at = m_updated_at row\<rparr>)
   \<and> (\<forall>t. m_metadata row = Some t \<and> t \<noteq> [] \<and> JSON_parse t = None \<longrightarrow>
      toMemory JSON_parse row = Inl SyntaxError)
   \<and> (find (\<lambda>r. m_id r = ident) (memories db) = Some row \<longrightarrow>
      getMemory JSON_parse db ident =
        (case toMemory JSON_parse row of Inl e \<Rightarrow> Inl e | Inr m \<Rightarrow> Inr (Some m)))
   \<and> (text_rows db query lmt = Inr selected \<and> row \<in> set selected
        \<and> toMemory JSON_parse row = Inl SyntaxError \<longrightarrow>
      text_search JSON_parse db query lmt = Inl SyntaxError)
   \<and> (generateEmbedding query = Inr q \<and> vector_rows vec_distance_cosine db q lmt thr = Inr rows
      \<and> row \<in> fst ` set rows \<and> toMemory JSON_parse row = Inl SyntaxError \<longrightarrow>
      vector_search generateEmbedding JSON_parse vec_distance_cosine db query lmt thr
        = Inl SyntaxError)"
proof (intro conjI allI impI)
  fix empty
  assume "JSON_parse ''{}'' = Some empty \<and> (m_metadata row = None \<or> m_metadata row = Some [])"
  then show "toMemory JSON_parse row =
        Inr \<lparr>mem_id = m_id row, content = m_content row, metadata = empty,
             created_at = m_created_at row, updated_at = m_updated_at row\<rparr>"
    by (auto simp: toMemory_def parse_metadata_def)
next
  fix t j assume "m_metadata row = Some t \<and> t \<noteq> [] \<and> JSON_parse t = Some j"
  then show "toMemory JSON_parse row =
        Inr \<lparr>mem_id = m_id row, content = m_content row, metadata = j,
             created_at = m_created_at row, updated_at = m_updated_at row\<rparr>"
    by (simp add: toMemory_def parse_metadata_def)
next
  fix t assume "m_metadata row = Some t \<and> t \<noteq> [] \<and> JSON_parse t = None"
  then show "toMemory JSON_parse row = Inl SyntaxError"
    by (simp add: toMemory_def parse_metadata_def)
next
  assume "find (\<lambda>r. m_id r = ident) (memories db) = Some row"
  then show "getMemory JSON_parse db ident =
        (case toMemory JSON_parse row of Inl e \<Rightarrow> Inl e | Inr m \<Rightarrow> Inr (Some m))"
    by (simp add: getMemory_def)
next
  assume a: "text_rows db query lmt = Inr selected \<and> row \<in> set selected
        \<and> toMemory JSON_parse row = Inl SyntaxError"
  then have "try_map (\<lambda>x. toMemory JSON_parse x) selected = Inl SyntaxError"
    using try_map_toMemory_fails [of row selected JSON_parse "\<lambda>x. x"] by simp
  with a show "text_search JSON_parse db query lmt = Inl SyntaxError"
    by (simp add: text_search_def)
next
  assume a: "generateEmbedding query = Inr q \<and> vector_rows vec_distance_cosine db q lmt thr = Inr rows
      \<and> row \<in> fst ` set rows \<and> toMemory JSON_parse row = Inl SyntaxError"
  then obtain rd where "rd \<in> set rows" "toMemory JSON_parse (fst rd) = Inl SyntaxError" by auto
  then have "try_map (\<lambda>rd. toMemory JSON_parse (fst rd)) rows = Inl SyntaxError"
    by (rule try_map_toMemory_fails)
  with a show "vector_search generateEmbedding JSON_parse vec_distance_cosine db query lmt thr
                 = Inl SyntaxError"
    by (simp add: vector_search_def)
qed

theorem metadata_read_witness:
  "toMemory example_parse
     \<lparr>m_id = ''n'', m_content = ''x'', m_metadata = None, m_created_at = 1, m_updated_at = 1\<rparr>
     = Inr \<lparr>mem_id = ''n'', content = ''x'', metadata = JObj [], created_at = 1, updated_at = 1\<rparr>
   \<and> toMemory example_parse
       \<lparr>m_id = ''b'', m_content = ''Beta'', m_metadata = Some ''{\"type\":\"fact\"}'',
        m_created_at = 2, m_updated_at = 2\<rparr>
     = Inr \<lparr>mem_id = ''b'', content = ''Beta'', metadata = JObj [(''type'', JStr ''fact'')],
            created_at = 2, updated_at = 2\<rparr>
   \<and> toMemory example_parse
       \<lparr>m_id = ''b'', m_content = ''Beta'', m_metadata = Some ''{oops'', m_created_at = 2,
        m_updated_at = 2\<rparr> = Inl SyntaxError
   \<and> getMemory example_parse malformed_db ''b'' = Inl SyntaxError"
proof -
  let ?n = "\<lparr>m_id = ''n'', m_content = ''x'', m_metadata = None, m_created_at = 1, m_updated_at = 1\<rparr>"
  let ?f = "\<lparr>m_id = ''b'', m_content = ''Beta'', m_metadata = Some ''{\"type\":\"fact\"}'',
             m_created_at = 2, m_updated_at = 2\<rparr>"
  let ?b = "\<lparr>m_id = ''b'', m_content = ''Beta'', m_metadata = Some ''{oops'', m_created_at = 2,
             m_updated_at = 2\<rparr>"
  have e: "example_parse ''{}'' = Some (JObj [])" by code_simp
  have j: "example_parse ''{\"type\":\"fact\"}'' = Some (JObj [(''type'', JStr ''fact'')])"
    by code_simp
  have p: "example_parse ''{oops'' = None" by code_simp
  have f: "find (\<lambda>r. m_id r = ''b'') (memories malformed_db) = Some ?b" by code_simp
  from metadata_read [of example_parse ?n] e have 1: "toMemory example_parse ?n =
      Inr \<lparr>mem_id = ''n'', content = ''x'', metadata = JObj [], created_at = 1, updated_at = 1\<rparr>"
    by simp
  from metadata_read [of example_parse ?f] j have 2: "toMemory example_parse ?f =
      Inr \<lparr>mem_id = ''b'', content = ''Beta'', metadata = JObj [(''type'', JStr ''fact'')],
            created_at = 2, updated_at = 2\<rparr>"
    by simp
  from metadata_read [of example_parse ?b "''b''" malformed_db] p f
  have 3: "toMemory example_parse ?b = Inl SyntaxError"
    and 4: "getMemory example_parse malformed_db ''b'' = Inl SyntaxError"
    by simp_all
  from 1 2 3 4 show ?thesis by simp
qed

text \<open>
  C6 as stated fails: the metadata of memory \<^verbatim>\<open>b\<close> in \<open>malformed_db\<close> is text on which
  \<^verbatim>\<open>JSON.parse\<close> throws, and both \<open>getMemory\<close> and a search that selects the row raise.
\<close>

theorem malformed_metadata_counterexample:
  "map m_metadata (memories malformed_db) = [Some ''{}'', Some ''{oops'']
   \<and> example_parse ''{oops'' = None
   \<and> getMemory example_parse malformed_db ''b'' = Inl SyntaxError
   \<and> searchMemories provider_down example_parse example_distance malformed_db ''Beta''
        \<lparr>search_limit = None, threshold = None\<rparr> = Inl SyntaxError"
  by code_simp

subsection \<open>The vector step\<close>






subsection \<open>Traversal\<close>

lemma distinct_singleton_set:
  assumes "distinct xs" and "set xs = {x}"
  shows "xs = [x]"
proof (cases xs)
  case Nil
  with assms(2) show ?thesis by simp
next
  case (Cons a ys)
  with assms(2) have a: "a = x" by auto
  from Cons assms have "set ys \<subseteq> {x}" "a \<notin> set ys" by auto
  with a have "ys = []" by (cases ys) auto
  with Cons a show ?thesis by simp
qed

lemma where_clause_memoryId:
  "ident \<noteq> [] \<Longrightarrow>
     where_clause (memoryId_query ident) r \<longleftrightarrow>
       0 \<le> r_strength r \<and> (r_from_memory_id r = ident \<or> r_to_memory_id r = ident)"
  by (simp add: where_clause_def memoryId_query_def truthy_def)

lemma filter_where_incident:
  "ident \<noteq> [] \<Longrightarrow> filter (where_clause (memoryId_query ident)) (relationships db) = incident db ident"
  by (simp add: incident_def where_clause_memoryId cong: filter_cong)

lemma relationship_rows_memoryId:
  assumes "ident \<noteq> []"
  shows "relationship_rows db (memoryId_query ident) =
           Inr (take 100 (order_by_desc (\<lambda>r. (r_strength r, r_created_at r)) (incident db ident)))"
proof -
  have l: "limit (memoryId_query ident) = None" by (simp add: memoryId_query_def)
  have n: "nat \<lfloor>100::real\<rfloor> = 100" by simp
  show ?thesis
    unfolding relationship_rows_def filter_where_incident [OF assms] l
    by (simp add: sql_limit_def valid_limit_100 n del: floor_numeral)
qed

lemma toRelationship_error: "toRelationship JSON_parse row = Inl e \<Longrightarrow> e = SyntaxError"
  by (auto simp: toRelationship_def parse_metadata_def split: option.splits sum.splits)

lemma toRelationship_next_id:
  "toRelationship JSON_parse row = Inr rel \<Longrightarrow> next_id ident rel = other_end ident row"
  by (auto simp: toRelationship_def next_id_def other_end_def split: sum.splits)

lemma try_map_cases:
  assumes "\<And>x e. f x = Inl e \<Longrightarrow> e = E"
  shows "if \<exists>x\<in>set xs. f x = Inl E then try_map f xs = Inl E
         else \<exists>ys. try_map f xs = Inr ys \<and> list_all2 (\<lambda>x y. f x = Inr y) xs ys"
proof (cases "\<exists>x\<in>set xs. f x = Inl E")
  case True
  then obtain x where "x \<in> set xs" "f x = Inl E" by blast
  from try_map_fails [of x xs f E, OF this] obtain e' where e': "try_map f xs = Inl e'" by blast
  then obtain y where "f y = Inl e'" by (blast dest: try_map_Inl)
  then have "e' = E" by (rule assms)
  with e' True show ?thesis by simp
next
  case False
  have "\<forall>x\<in>set xs. \<exists>y. f x = Inr y"
  proof
    fix x assume "x \<in> set xs"
    with False have "f x \<noteq> Inl E" by blast
    then show "\<exists>y. f x = Inr y" by (cases "f x") (auto dest: assms)
  qed
  from try_map_succeeds [OF this] obtain ys where ys: "try_map f xs = Inr ys" by blast
  from try_map_list_all2 [OF ys] ys False show ?thesis by simp
qed

lemma list_all2_image:
  assumes "list_all2 (\<lambda>x y. g y = h x) xs ys"
  shows "g ` set ys = h ` set xs"
  using assms by (induction rule: list_all2_induct) auto

text \<open>
  The rows that one expansion step fetches: at most 100 rows of \<^verbatim>\<open>relationships\<close>, each
  with the node as an endpoint and a strength of at least 0; a row of the node with such a
  strength that is not fetched is no stronger (and at equal strength no newer) than any
  fetched one, 100 being fetched; and all of them are fetched when they are at most 100.
\<close>

lemma fetched_rows:
  assumes "rows = take 100 (order_by_desc (\<lambda>r. (r_strength r, r_created_at r)) (incident db ident))"
  shows "length rows \<le> 100
       \<and> (\<forall>row\<in>set rows. row \<in> set (relationships db) \<and> 0 \<le> r_strength row
             \<and> (r_from_memory_id row = ident \<or> r_to_memory_id row = ident))
       \<and> (\<forall>row\<in>set (incident db ident).
             row \<in> set rows
             \<or> (length rows = 100
                 \<and> (\<forall>x\<in>set rows. (r_strength row, r_created_at row)
                                      \<le> (r_strength x, r_created_at x))))
       \<and> (length (incident db ident) \<le> 100 \<longrightarrow> set rows = set (incident db ident))"
proof -
  let ?k = "\<lambda>r. (r_strength r, r_created_at r)"
  let ?zs = "order_by_desc ?k (incident db ident)"
  have p1: "length rows \<le> 100" unfolding assms by simp
  have sub: "set rows \<subseteq> set (incident db ident)"
    unfolding assms using set_take_subset [of 100 ?zs] by simp
  have p2: "\<forall>row\<in>set rows. row \<in> set (relationships db) \<and> 0 \<le> r_strength row
             \<and> (r_from_memory_id row = ident \<or> r_to_memory_id row = ident)"
    using sub by (auto simp: incident_def)
  have p3: "\<forall>row\<in>set (incident db ident).
             row \<in> set rows
             \<or> (length rows = 100
                 \<and> (\<forall>x\<in>set rows. (r_strength row, r_created_at row)
                                      \<le> (r_strength x, r_created_at x)))"
  proof
    fix row assume "row \<in> set (incident db ident)"
    then have inz: "row \<in> set ?zs" by simp
    show "row \<in> set rows
             \<or> (length rows = 100
                 \<and> (\<forall>x\<in>set rows. (r_strength row, r_created_at row)
                                      \<le> (r_strength x, r_created_at x)))"
    proof (cases "row \<in> set rows")
      case True
      then show ?thesis by simp
    next
      case False
      with inz have dr: "row \<in> set (drop 100 ?zs)"
        using in_take_or_drop [of row ?zs 100] by (simp add: assms)
      then have l: "length rows = 100" unfolding assms by (rule drop_nonempty_length)
      have "\<forall>x\<in>set rows. (r_strength row, r_created_at row) \<le> (r_strength x, r_created_at x)"
      proof
        fix x assume "x \<in> set rows"
        then have "x \<in> set (take 100 ?zs)" by (simp add: assms)
        from desc_take_drop [OF this dr]
        show "(r_strength row, r_created_at row) \<le> (r_strength x, r_created_at x)" .
      qed
      with l show ?thesis by simp
    qed
  qed
  have p4: "length (incident db ident) \<le> 100 \<longrightarrow> set rows = set (incident db ident)"
    by (simp add: assms)
  from p1 p2 p3 p4 show ?thesis by blast
qed

lemma traverse_step:
  assumes "real depth < maxDepth" and "relationship_rows db (memoryId_query ident) = Inr rows"
  shows "if \<exists>row\<in>set rows. toRelationship JSON_parse row = Inl SyntaxError
         then getRelationships JSON_parse db (memoryId_query ident) = Inl SyntaxError
              \<and> traverse JSON_parse db maxDepth (visited, (ident, depth) # queue, connectedIds)
                  = Inl SyntaxError
         else (\<exists>rels new.
                 getRelationships JSON_parse db (memoryId_query ident) = Inr rels
                 \<and> list_all2 (\<lambda>row rel. toRelationship JSON_parse row = Inr rel) rows rels
                 \<and> traverse JSON_parse db maxDepth (visited, (ident, depth) # queue, connectedIds)
                     = traverse JSON_parse db maxDepth
                         (visited @ new, queue @ map (\<lambda>n. (n, depth + 1)) new, connectedIds @ new)
                 \<and> distinct new \<and> set new = other_end ident ` set rows - set visited)"
proof (cases "\<exists>row\<in>set rows. toRelationship JSON_parse row = Inl SyntaxError")
  case True
  have te: "\<And>x e. toRelationship JSON_parse x = Inl e \<Longrightarrow> e = SyntaxError"
    by (rule toRelationship_error)
  note c = try_map_cases [where f = "toRelationship JSON_parse" and E = SyntaxError and xs = rows, OF te]
  from c True have "try_map (toRelationship JSON_parse) rows = Inl SyntaxError"
    by (simp only: if_True)
  then have g: "getRelationships JSON_parse db (memoryId_query ident) = Inl SyntaxError"
    by (simp add: getRelationships_def assms(2))
  with assms(1) have
    "traverse JSON_parse db maxDepth (visited, (ident, depth) # queue, connectedIds) = Inl SyntaxError"
    by simp
  with g True show ?thesis by simp
next
  case False
  have te: "\<And>x e. toRelationship JSON_parse x = Inl e \<Longrightarrow> e = SyntaxError"
    by (rule toRelationship_error)
  note c = try_map_cases [where f = "toRelationship JSON_parse" and E = SyntaxError and xs = rows, OF te]
  from c False have "\<exists>rels. try_map (toRelationship JSON_parse) rows = Inr rels
      \<and> list_all2 (\<lambda>row rel. toRelationship JSON_parse row = Inr rel) rows rels"
    by (simp only: if_False)
  then obtain rels where tm: "try_map (toRelationship JSON_parse) rows = Inr rels"
    and all2: "list_all2 (\<lambda>row rel. toRelationship JSON_parse row = Inr rel) rows rels"
    by blast
  from tm have g: "getRelationships JSON_parse db (memoryId_query ident) = Inr rels"
    by (simp add: getRelationships_def assms(2))
  from fold_visit [of ident depth rels visited queue connectedIds] obtain new where
    new: "fold (visit ident depth) rels (visited, queue, connectedIds) =
           (visited @ new, queue @ map (\<lambda>n. (n, depth + 1)) new, connectedIds @ new)"
      "set new = next_id ident ` set rels - set visited" "distinct new" by blast
  from assms(1) g have
    "traverse JSON_parse db maxDepth (visited, (ident, depth) # queue, connectedIds)
      = traverse JSON_parse db maxDepth (fold (visit ident depth) rels (visited, queue, connectedIds))"
    by simp
  then have t: "traverse JSON_parse db maxDepth (visited, (ident, depth) # queue, connectedIds)
      = traverse JSON_parse db maxDepth
          (visited @ new, queue @ map (\<lambda>n. (n, depth + 1)) new, connectedIds @ new)"
    by (simp only: new(1))
  have "list_all2 (\<lambda>row rel. next_id ident rel = other_end ident row) rows rels"
    using all2 by (rule list_all2_mono) (rule toRelationship_next_id)
  then have "next_id ident ` set rels = other_end ident ` set rows" by (rule list_all2_image)
  with new(2) have s: "set new = other_end ident ` set rows - set visited" by simp
  from g all2 t new(3) s have
    "\<exists>rels new.
       getRelationships JSON_parse db (memoryId_query ident) = Inr rels
       \<and> list_all2 (\<lambda>row rel. toRelationship JSON_parse row = Inr rel) rows rels
       \<and> traverse JSON_parse db maxDepth (visited, (ident, depth) # queue, connectedIds)
           = traverse JSON_parse db maxDepth
               (visited @ new, queue @ map (\<lambda>n. (n, depth + 1)) new, connectedIds @ new)
       \<and> distinct new \<and> set new = other_end ident ` set rows - set visited"
    by blast
  with False show ?thesis by (simp only: if_False)
qed

text \<open>
  C3, as the code has it. When a node with a non-empty id at a depth below \<open>maxDepth\<close> is
  taken from the queue, the rows fetched are those of the statement of
  \<^verbatim>\<open>getRelationships({ memoryId: id })\<close> with its defaults \<^verbatim>\<open>minStrength = 0\<close> and
  \<^verbatim>\<open>limit = 100\<close>: each is a relationship with the id as an endpoint and a strength of at
  least 0, there are at most 100 of them, and a relationship of the node with a strength
  of at least 0 that is not fetched is no stronger (and at equal strength no newer) than
  any fetched one, 100 being fetched; all of them are fetched when they are at most 100.
  If \<^verbatim>\<open>JSON.parse\<close> throws on the metadata of a fetched row, \<open>getRelationships\<close> and
  with it the traversal raise the syntax error. If it throws on none, \<open>getRelationships\<close>
  returns the relationships of the fetched rows, each of which contributes its other
  endpoint: the unseen ones are marked visited, added to the result and queued one level
  deeper.
\<close>

theorem expansion_fetches:
  assumes "real depth < maxDepth" and "ident \<noteq> []"
  shows "\<exists>rows.
           relationship_rows db (memoryId_query ident) = Inr rows
           \<and> length rows \<le> 100
           \<and> (\<forall>row\<in>set rows. row \<in> set (relationships db) \<and> 0 \<le> r_strength row
                 \<and> (r_from_memory_id row = ident \<or> r_to_memory_id row = ident))
           \<and> (\<forall>row\<in>set (incident db ident).
                 row \<in> set rows
                 \<or> (length rows = 100
                     \<and> (\<forall>x\<in>set rows. (r_strength row, r_created_at row)
                                          \<le> (r_strength x, r_created_at x))))
           \<and> (length (incident db ident) \<le> 100 \<longrightarrow> set rows = set (incident db ident))
           \<and> (if \<exists>row\<in>set rows. toRelationship JSON_parse row = Inl SyntaxError
               then getRelationships JSON_parse db (memoryId_query ident) = Inl SyntaxError
                    \<and> traverse JSON_parse db maxDepth (visited, (ident, depth) # queue, connectedIds)
                        = Inl SyntaxError
               else (\<exists>rels new.
                       getRelationships JSON_parse db (memoryId_query ident) = Inr rels
                       \<and> list_all2 (\<lambda>row rel. toRelationship JSON_parse row = Inr rel) rows rels
                       \<and> traverse JSON_parse db maxDepth
                           (visited, (ident, depth) # queue, connectedIds)
                           = traverse JSON_parse db maxDepth
                               (visited @ new, queue @ map (\<lambda>n. (n, depth + 1)) new,
                                connectedIds @ new)
                       \<and> distinct new \<and> set new = other_end ident ` set rows - set visited))"
proof -
  let ?rows = "take 100 (order_by_desc (\<lambda>r. (r_strength r, r_created_at r)) (incident db ident))"
  have r: "relationship_rows db (memoryId_query ident) = Inr ?rows"
    by (rule relationship_rows_memoryId [OF assms(2)])
  note f = fetched_rows [of ?rows db ident, OF refl]
  note t = traverse_step [OF assms(1) r, of JSON_parse visited queue connectedIds]
  from f have f1: "length ?rows \<le> 100"
    and f2: "\<forall>row\<in>set ?rows. row \<in> set (relationships db) \<and> 0 \<le> r_strength row
                 \<and> (r_from_memory_id row = ident \<or> r_to_memory_id row = ident)"
    and f3: "\<forall>row\<in>set (incident db ident).
                 row \<in> set ?rows
                 \<or> (length ?rows = 100
                     \<and> (\<forall>x\<in>set ?rows. (r_strength row, r_created_at row)
                                          \<le> (r_strength x, r_created_at x)))"
    and f4: "length (incident db ident) \<le> 100 \<longrightarrow> set ?rows = set (incident db ident)"
    by blast+
  show ?thesis
    by (rule exI [of _ ?rows]) (intro conjI r f1 f2 f3 f4 t)
qed

theorem expansion_fetches_witness:
  "relationship_rows db3 (memoryId_query ''a'')
     = Inr [\<lparr>r_id = ''r1'', r_from_memory_id = ''a'', r_to_memory_id = ''b'',
              r_relationship_type = ''relates_to'', r_strength = 0.8,
              r_metadata = Some ''{}'', r_created_at = 3\<rparr>]
   \<and> traverse example_parse db3 2 ([''a''], [(''a'', 0)], [])
       = traverse example_parse db3 2 ([''a'', ''b''], [(''b'', 1)], [''b''])
   \<and> getConnectedMemories example_parse db3 ''a'' None
     = Inr [\<lparr>mem_id = ''b'', content = ''Beta'', metadata = JObj [(''type'', JStr ''fact'')],
              created_at = 2, updated_at = 2\<rparr>]"
proof -
  let ?r1 = "\<lparr>r_id = ''r1'', r_from_memory_id = ''a'', r_to_memory_id = ''b'',
              r_relationship_type = ''relates_to'', r_strength = 0.8,
              r_metadata = Some ''{}'', r_created_at = 3\<rparr>"
  have d: "real 0 < 2" by simp
  have n: "''a'' \<noteq> []" by simp
  have g: "relationship_rows db3 (memoryId_query ''a'') = Inr [?r1]" by code_simp
  have p: "toRelationship example_parse ?r1 \<noteq> Inl SyntaxError" by code_simp
  from expansion_fetches [where depth = 0 and maxDepth = 2 and ident = "''a''" and db = db3
         and JSON_parse = example_parse and visited = "[''a'']" and queue = "[]"
         and connectedIds = "[]", OF d n]
  obtain rows where r: "relationship_rows db3 (memoryId_query ''a'') = Inr rows"
    and step: "if \<exists>row\<in>set rows. toRelationship example_parse row = Inl SyntaxError
       then getRelationships example_parse db3 (memoryId_query ''a'') = Inl SyntaxError
            \<and> traverse example_parse db3 2 ([''a''], [(''a'', 0)], []) = Inl SyntaxError
       else (\<exists>rels new.
               getRelationships example_parse db3 (memoryId_query ''a'') = Inr rels
               \<and> list_all2 (\<lambda>row rel. toRelationship example_parse row = Inr rel) rows rels
               \<and> traverse example_parse db3 2 ([''a''], [(''a'', 0)], [])
                   = traverse example_parse db3 2
                       ([''a''] @ new, [] @ map (\<lambda>n. (n, 0 + 1)) new, [] @ new)
               \<and> distinct new \<and> set new = other_end ''a'' ` set rows - set [''a''])"
    by blast
  from r g have rows: "rows = [?r1]" by simp
  from p have ok: "\<not> (\<exists>row\<in>set rows. toRelationship example_parse row = Inl SyntaxError)"
    by (simp add: rows)
  from step ok obtain new where
    new: "traverse example_parse db3 2 ([''a''], [(''a'', 0)], [])
            = traverse example_parse db3 2
                ([''a''] @ new, [] @ map (\<lambda>n. (n, 0 + 1)) new, [] @ new)"
         "distinct new" "set new = other_end ''a'' ` set rows - set [''a'']"
    by (simp only: if_False) blast
  from new(3) have "set new = {''b''}" by (simp add: rows other_end_def)
  with new(2) have "new = [''b'']" by (rule distinct_singleton_set)
  with new(1) have t: "traverse example_parse db3 2 ([''a''], [(''a'', 0)], [])
                         = traverse example_parse db3 2 ([''a'', ''b''], [(''b'', 1)], [''b''])"
    by (simp del: traverse.simps)
  have c: "getConnectedMemories example_parse db3 ''a'' None
     = Inr [\<lparr>mem_id = ''b'', content = ''Beta'', metadata = JObj [(''type'', JStr ''fact'')],
              created_at = 2, updated_at = 2\<rparr>]"
    by code_simp
  from g t c show ?thesis by blast
qed

text \<open>
  C3 as stated fails: in \<open>db_weak\<close> the one relationship of \<^verbatim>\<open>a\<close> has strength \<open>-1\<close>; the
  expansion of \<^verbatim>\<open>a\<close> fetches nothing and the traversal returns no memory.
\<close>

theorem expansion_fetches_counterexample:
  "map r_from_memory_id (relationships db_weak) = [''a'']
   \<and> map r_to_memory_id (relationships db_weak) = [''b'']
   \<and> map r_strength (relationships db_weak) = [- 1]
   \<and> relationship_rows db_weak (memoryId_query ''a'') = Inr []
   \<and> getRelationships example_parse db_weak (memoryId_query ''a'') = Inr []
   \<and> getConnectedMemories example_parse db_weak ''a'' None = Inr []"
  by code_simp

lemma traverse_keeps_out:
  "traverse JSON_parse db maxDepth st = Inr ids \<Longrightarrow> x \<in> set (fst st) \<Longrightarrow> x \<notin> set (snd (snd st))
     \<Longrightarrow> x \<notin> set ids"
proof (induction JSON_parse db maxDepth st arbitrary: ids rule: traverse.induct)
  case (1 JSON_parse db maxDepth visited connectedIds)
  then show ?case by simp
next
  case (2 JSON_parse db maxDepth visited ident depth queue connectedIds)
  show ?case
  proof (cases "maxDepth \<le> real depth")
    case True
    with 2 show ?thesis by simp
  next
    case False
    show ?thesis
    proof (cases "getRelationships JSON_parse db (memoryId_query ident)")
      case (Inl e)
      with False 2(3) show ?thesis by simp
    next
      case (Inr rels)
      from fold_visit [of ident depth rels visited queue connectedIds] obtain new where
        new: "fold (visit ident depth) rels (visited, queue, connectedIds) =
               (visited @ new, queue @ map (\<lambda>n. (n, depth + 1)) new, connectedIds @ new)"
          "set new = next_id ident ` set rels - set visited" by blast
      from False Inr 2(3) have
        "traverse JSON_parse db maxDepth (fold (visit ident depth) rels (visited, queue, connectedIds)) = Inr ids"
        by simp
      moreover from 2(4) have "x \<in> set (fst (fold (visit ident depth) rels (visited, queue, connectedIds)))"
        by (simp add: new(1))
      moreover from 2(4,5) new(2) have
        "x \<notin> set (snd (snd (fold (visit ident depth) rels (visited, queue, connectedIds))))"
        by (simp add: new(1))
      ultimately show ?thesis by (rule "2.IH"(2) [OF False Inr])
    qed
  qed
qed

lemma getMemory_id: "getMemory JSON_parse db ident = Inr (Some m) \<Longrightarrow> mem_id m = ident"
proof -
  assume a: "getMemory JSON_parse db ident = Inr (Some m)"
  then obtain row where row: "find (\<lambda>row. m_id row = ident) (memories db) = Some row"
    and m: "toMemory JSON_parse row = Inr m"
    by (auto simp: getMemory_def split: option.splits sum.splits)
  from row have "m_id row = ident" by (auto simp: find_Some_iff)
  with m show ?thesis by (simp add: toMemory_fields)
qed

lemma found_memories:
  "m \<in> set (concat (map (\<lambda>m. case m of None \<Rightarrow> [] | Some x \<Rightarrow> [x]) found)) \<longleftrightarrow> Some m \<in> set found"
  by (induction found) (auto split: option.splits)

lemma getConnectedMemories_ids:
  assumes "getConnectedMemories JSON_parse db start maxDepth = Inr ms" and "m \<in> set ms"
  shows "\<exists>ids. traverse JSON_parse db (case maxDepth of None \<Rightarrow> 2 | Some d \<Rightarrow> d)
                  ([start], [(start, 0)], []) = Inr ids
             \<and> mem_id m \<in> set ids \<and> getMemory JSON_parse db (mem_id m) = Inr (Some m)"
proof -
  from assms(1) obtain ids found where
    ids: "traverse JSON_parse db (case maxDepth of None \<Rightarrow> 2 | Some d \<Rightarrow> d)
            ([start], [(start, 0)], []) = Inr ids"
    and found: "try_map (getMemory JSON_parse db) ids = Inr found"
    and ms: "ms = concat (map (\<lambda>m. case m of None \<Rightarrow> [] | Some x \<Rightarrow> [x]) found)"
    by (auto simp: getConnectedMemories_def split: sum.splits)
  from assms(2) ms have "Some m \<in> set found" by (simp add: found_memories)
  from try_map_Inr_set [OF found this] obtain i where
    i: "i \<in> set ids" "getMemory JSON_parse db i = Inr (Some m)"
    by blast
  from getMemory_id [OF i(2)] i ids show ?thesis by auto
qed

lemma getConnectedMemories_excludes_start:
  assumes "getConnectedMemories JSON_parse db start maxDepth = Inr ms"
  shows "start \<notin> mem_id ` set ms"
proof
  assume "start \<in> mem_id ` set ms"
  then obtain m where m: "m \<in> set ms" "mem_id m = start" by auto
  from getConnectedMemories_ids [OF assms m(1)] obtain ids where
    ids: "traverse JSON_parse db (case maxDepth of None \<Rightarrow> 2 | Some d \<Rightarrow> d)
            ([start], [(start, 0)], []) = Inr ids"
    "mem_id m \<in> set ids" by blast
  from traverse_keeps_out [OF ids(1), of start] have "start \<notin> set ids" by simp
  with ids(2) m(2) show False by simp
qed

subsection \<open>A chain of four memories\<close>

lemma length_incident: "length (incident db ident) \<le> length (relationships db)"
  by (simp add: incident_def)

lemma expand_node:
  assumes "real depth < maxDepth" and "ident \<noteq> []"
    and "\<forall>r\<in>set (relationships db). toRelationship JSON_parse r \<noteq> Inl SyntaxError"
    and "length (relationships db) \<le> 100"
  shows "\<exists>new. traverse JSON_parse db maxDepth (visited, (ident, depth) # queue, connectedIds)
                 = traverse JSON_parse db maxDepth
                     (visited @ new, queue @ map (\<lambda>n. (n, depth + 1)) new, connectedIds @ new)
              \<and> distinct new \<and> set new = other_end ident ` set (incident db ident) - set visited"
proof -
  let ?rows = "take 100 (order_by_desc (\<lambda>r. (r_strength r, r_created_at r)) (incident db ident))"
  have r: "relationship_rows db (memoryId_query ident) = Inr ?rows"
    by (rule relationship_rows_memoryId [OF assms(2)])
  from length_incident [of db ident] assms(4) have le: "length (incident db ident) \<le> 100" by simp
  then have rows: "set ?rows = set (incident db ident)" by simp
  have ok: "\<not> (\<exists>row\<in>set ?rows. toRelationship JSON_parse row = Inl SyntaxError)"
  proof
    assume "\<exists>row\<in>set ?rows. toRelationship JSON_parse row = Inl SyntaxError"
    then obtain row where row: "row \<in> set ?rows" "toRelationship JSON_parse row = Inl SyntaxError"
      by blast
    from row(1) rows have "row \<in> set (incident db ident)" by simp
    then have "row \<in> set (relationships db)" by (simp add: incident_def)
    with assms(3) row(2) show False by blast
  qed
  note t = traverse_step [OF assms(1) r, of JSON_parse visited queue connectedIds]
  from t ok obtain new where
    "traverse JSON_parse db maxDepth (visited, (ident, depth) # queue, connectedIds)
       = traverse JSON_parse db maxDepth
           (visited @ new, queue @ map (\<lambda>n. (n, depth + 1)) new, connectedIds @ new)"
    "distinct new" "set new = other_end ident ` set ?rows - set visited"
    by (simp only: if_False) blast
  then show ?thesis by (simp only: rows) blast
qed

lemma chain4_incident:
  assumes "chain4 db A B C D r1 r2 r3"
  shows "set (incident db X) = {r \<in> {r1, r2, r3}. r_from_memory_id r = X \<or> r_to_memory_id r = X}"
proof -
  from assms have s: "set (relationships db) = {r1, r2, r3}"
    and p: "0 \<le> r_strength r1" "0 \<le> r_strength r2" "0 \<le> r_strength r3"
    by (simp_all add: chain4_def)
  have "set (incident db X) =
          {r \<in> {r1, r2, r3}. 0 \<le> r_strength r \<and> (r_from_memory_id r = X \<or> r_to_memory_id r = X)}"
    by (simp add: incident_def s)
  also have "\<dots> = {r \<in> {r1, r2, r3}. r_from_memory_id r = X \<or> r_to_memory_id r = X}"
    using p by blast
  finally show ?thesis .
qed

lemma Collect_insert_if:
  "{x \<in> insert a S. P x} = (if P a then insert a {x \<in> S. P x} else {x \<in> S. P x})"
  by auto

lemma links_touch:
  "links r x y \<Longrightarrow> (r_from_memory_id r = z \<or> r_to_memory_id r = z) \<longleftrightarrow> (z = x \<or> z = y)"
  unfolding links_def by blast

lemma links_other_end: "links r x y \<Longrightarrow> other_end x r = y \<and> other_end y r = x"
  unfolding links_def other_end_def by auto

lemma chain4_neighbours:
  assumes "chain4 db A B C D r1 r2 r3"
  shows "other_end A ` set (incident db A) = {B}"
    and "other_end B ` set (incident db B) = {A, C}"
    and "other_end C ` set (incident db C) = {B, D}"
    and "other_end D ` set (incident db D) = {C}"
proof -
  from assms have l: "links r1 A B" "links r2 B C" "links r3 C D"
    and d: "A \<noteq> B" "A \<noteq> C" "A \<noteq> D" "B \<noteq> C" "B \<noteq> D" "C \<noteq> D"
    by (simp_all add: chain4_def)
  note t = links_touch [OF l(1)] links_touch [OF l(2)] links_touch [OF l(3)]
  note o = links_other_end [OF l(1)] links_other_end [OF l(2)] links_other_end [OF l(3)]
  show "other_end A ` set (incident db A) = {B}"
    unfolding chain4_incident [OF assms] using d by (simp only: Collect_insert_if) (simp add: t o)
  show "other_end B ` set (incident db B) = {A, C}"
    unfolding chain4_incident [OF assms] using d by (simp only: Collect_insert_if) (simp add: t o)
  show "other_end C ` set (incident db C) = {B, D}"
    unfolding chain4_incident [OF assms] using d by (simp only: Collect_insert_if) (simp add: t o)
  show "other_end D ` set (incident db D) = {C}"
    unfolding chain4_incident [OF assms] using d by (simp only: Collect_insert_if) (simp add: t o)
qed

lemma chain4_steps:
  assumes c: "chain4 db A B C D r1 r2 r3"
    and p: "\<forall>r\<in>set (relationships db). toRelationship JSON_parse r \<noteq> Inl SyntaxError"
  shows "0 < m \<Longrightarrow> traverse JSON_parse db m ([A], [(A, 0)], [])
                    = traverse JSON_parse db m ([A, B], [(B, 1)], [B])"
    and "1 < m \<Longrightarrow> traverse JSON_parse db m ([A, B], [(B, 1)], [B])
                    = traverse JSON_parse db m ([A, B, C], [(C, 2)], [B, C])"
    and "2 < m \<Longrightarrow> traverse JSON_parse db m ([A, B, C], [(C, 2)], [B, C])
                    = traverse JSON_parse db m ([A, B, C, D], [(D, 3)], [B, C, D])"
    and "3 < m \<Longrightarrow> traverse JSON_parse db m ([A, B, C, D], [(D, 3)], [B, C, D]) = Inr [B, C, D]"
proof -
  from c have ne: "A \<noteq> []" "B \<noteq> []" "C \<noteq> []" "D \<noteq> []"
    and d: "A \<noteq> B" "A \<noteq> C" "A \<noteq> D" "B \<noteq> C" "B \<noteq> D" "C \<noteq> D"
    and len: "length (relationships db) \<le> 100"
    by (simp_all add: chain4_def)
  note n = chain4_neighbours [OF c]
  {
    assume "0 < m"
    then have "real 0 < m" by simp
    from expand_node [OF this ne(1) p len, of "[A]" "[]" "[]"] obtain new where
      eq: "traverse JSON_parse db m ([A], [(A, 0)], [])
             = traverse JSON_parse db m ([A] @ new, [] @ map (\<lambda>n. (n, 0 + 1)) new, [] @ new)"
      and new: "distinct new" "set new = other_end A ` set (incident db A) - set [A]"
      by blast
    from new(2) d have "set new = {B}" by (auto simp: n)
    with new(1) have "new = [B]" by (rule distinct_singleton_set)
    with eq show "traverse JSON_parse db m ([A], [(A, 0)], [])
                    = traverse JSON_parse db m ([A, B], [(B, 1)], [B])"
      by (simp del: traverse.simps add: numeral_2_eq_2 numeral_3_eq_3)
  }
  {
    assume "1 < m"
    then have "real 1 < m" by simp
    from expand_node [OF this ne(2) p len, of "[A, B]" "[]" "[B]"] obtain new where
      eq: "traverse JSON_parse db m ([A, B], [(B, 1)], [B])
             = traverse JSON_parse db m ([A, B] @ new, [] @ map (\<lambda>n. (n, 1 + 1)) new, [B] @ new)"
      and new: "distinct new" "set new = other_end B ` set (incident db B) - set [A, B]"
      by blast
    from new(2) d have "set new = {C}" by (auto simp: n)
    with new(1) have "new = [C]" by (rule distinct_singleton_set)
    with eq show "traverse JSON_parse db m ([A, B], [(B, 1)], [B])
                    = traverse JSON_parse db m ([A, B, C], [(C, 2)], [B, C])"
      by (simp del: traverse.simps add: numeral_2_eq_2 numeral_3_eq_3)
  }
  {
    assume "2 < m"
    then have "real 2 < m" by simp
    from expand_node [OF this ne(3) p len, of "[A, B, C]" "[]" "[B, C]"] obtain new where
      eq: "traverse JSON_parse db m ([A, B, C], [(C, 2)], [B, C])
             = traverse JSON_parse db m ([A, B, C] @ new, [] @ map (\<lambda>n. (n, 2 + 1)) new, [B, C] @ new)"
      and new: "distinct new" "set new = other_end C ` set (incident db C) - set [A, B, C]"
      by blast
    from new(2) d have "set new = {D}" by (auto simp: n)
    with new(1) have "new = [D]" by (rule distinct_singleton_set)
    with eq show "traverse JSON_parse db m ([A, B, C], [(C, 2)], [B, C])
                    = traverse JSON_parse db m ([A, B, C, D], [(D, 3)], [B, C, D])"
      by (simp del: traverse.simps add: numeral_2_eq_2 numeral_3_eq_3)
  }
  {
    assume "3 < m"
    then have "real 3 < m" by simp
    from expand_node [OF this ne(4) p len, of "[A, B, C, D]" "[]" "[B, C, D]"] obtain new where
      eq: "traverse JSON_parse db m ([A, B, C, D], [(D, 3)], [B, C, D])
             = traverse JSON_parse db m
                 ([A, B, C, D] @ new, [] @ map (\<lambda>n. (n, 3 + 1)) new, [B, C, D] @ new)"
      and new: "distinct new" "set new = other_end D ` set (incident db D) - set [A, B, C, D]"
      by blast
    from new(2) have "set new = {}" by (auto simp: n)
    then have "new = []" by simp
    with eq show "traverse JSON_parse db m ([A, B, C, D], [(D, 3)], [B, C, D]) = Inr [B, C, D]"
      by simp
  }
qed

lemma traverse_skip:
  "maxDepth \<le> real depth \<Longrightarrow>
     traverse JSON_parse db maxDepth (visited, (ident, depth) # queue, connectedIds)
       = traverse JSON_parse db maxDepth (visited, queue, connectedIds)"
  by simp

lemma chain4_traverse:
  assumes c: "chain4 db A B C D r1 r2 r3"
    and p: "\<forall>r\<in>set (relationships db). toRelationship JSON_parse r \<noteq> Inl SyntaxError"
  shows "traverse JSON_parse db m ([A], [(A, 0)], []) =
           Inr (if m \<le> 0 then [] else if m \<le> 1 then [B] else if m \<le> 2 then [B, C]
                else [B, C, D])"
proof -
  note s = chain4_steps [OF c p]
  consider "m \<le> 0" | "0 < m" "m \<le> 1" | "1 < m" "m \<le> 2" | "2 < m" "m \<le> 3" | "3 < m"
    by linarith
  then show ?thesis
  proof cases
    case 1
    then have "traverse JSON_parse db m ([A], [(A, 0)], []) = traverse JSON_parse db m ([A], [], [])"
      by (intro traverse_skip) simp
    with 1 show ?thesis by simp
  next
    case 2
    then have "traverse JSON_parse db m ([A], [(A, 0)], [])
                 = traverse JSON_parse db m ([A, B], [(B, 1)], [B])"
      by (intro s(1)) linarith
    also from 2 have "\<dots> = traverse JSON_parse db m ([A, B], [], [B])"
      by (intro traverse_skip) simp
    finally show ?thesis using 2 by simp
  next
    case 3
    then have "traverse JSON_parse db m ([A], [(A, 0)], [])
                 = traverse JSON_parse db m ([A, B], [(B, 1)], [B])"
      by (intro s(1)) linarith
    also from 3 have "\<dots> = traverse JSON_parse db m ([A, B, C], [(C, 2)], [B, C])"
      by (intro s(2)) linarith
    also from 3 have "\<dots> = traverse JSON_parse db m ([A, B, C], [], [B, C])"
      by (intro traverse_skip) simp
    finally show ?thesis using 3 by simp
  next
    case 4
    then have "traverse JSON_parse db m ([A], [(A, 0)], [])
                 = traverse JSON_parse db m ([A, B], [(B, 1)], [B])"
      by (intro s(1)) linarith
    also from 4 have "\<dots> = traverse JSON_parse db m ([A, B, C], [(C, 2)], [B, C])"
      by (intro s(2)) linarith
    also from 4 have "\<dots> = traverse JSON_parse db m ([A, B, C, D], [(D, 3)], [B, C, D])"
      by (intro s(3)) linarith
    also from 4 have "\<dots> = traverse JSON_parse db m ([A, B, C, D], [], [B, C, D])"
      by (intro traverse_skip) simp
    finally show ?thesis using 4 by simp
  next
    case 5
    then have "traverse JSON_parse db m ([A], [(A, 0)], [])
                 = traverse JSON_parse db m ([A, B], [(B, 1)], [B])"
      by (intro s(1)) linarith
    also from 5 have "\<dots> = traverse JSON_parse db m ([A, B, C], [(C, 2)], [B, C])"
      by (intro s(2)) linarith
    also from 5 have "\<dots> = traverse JSON_parse db m ([A, B, C, D], [(D, 3)], [B, C, D])"
      by (intro s(3)) linarith
    also from 5 have "\<dots> = Inr [B, C, D]" by (intro s(4))
    finally show ?thesis using 5 by simp
  qed
qed

text \<open>
  C9, as the code has it. Take a chain of four memories whose three relationships have a
  strength of at least 0, \<^verbatim>\<open>JSON.parse\<close> returning on the metadata of each relationship and
  of the memories \<open>B\<close>, \<open>C\<close> and \<open>D\<close>. Then \<open>getConnectedMemories\<close> from \<open>A\<close> returns
  exactly the memory \<open>B\<close> for \<open>maxDepth = 1\<close>, \<open>B\<close> and \<open>C\<close> for \<open>maxDepth = 2\<close> (the
  default), and \<open>B\<close>, \<open>C\<close> and \<open>D\<close> for \<open>maxDepth = 10\<close>; for any \<open>maxDepth\<close>, it returns
  the memories within that many steps of \<open>A\<close>. Whatever the database, the start and
  \<open>maxDepth\<close>, the memories returned never include the start.
\<close>

theorem chain_traversal:
  assumes "chain4 db A B C D r1 r2 r3"
    and "toRelationship JSON_parse r1 \<noteq> Inl SyntaxError"
    and "toRelationship JSON_parse r2 \<noteq> Inl SyntaxError"
    and "toRelationship JSON_parse r3 \<noteq> Inl SyntaxError"
    and "getMemory JSON_parse db B = Inr (Some mB)"
    and "getMemory JSON_parse db C = Inr (Some mC)"
    and "getMemory JSON_parse db D = Inr (Some mD)"
  shows "getConnectedMemories JSON_parse db A (Some 1) = Inr [mB]
       \<and> getConnectedMemories JSON_parse db A (Some 2) = Inr [mB, mC]
       \<and> getConnectedMemories JSON_parse db A None = Inr [mB, mC]
       \<and> getConnectedMemories JSON_parse db A (Some 10) = Inr [mB, mC, mD]
       \<and> (\<forall>m. getConnectedMemories JSON_parse db A (Some m) =
                 Inr (if m \<le> 0 then [] else if m \<le> 1 then [mB] else if m \<le> 2 then [mB, mC]
                      else [mB, mC, mD]))
       \<and> (\<forall>db' start maxDepth ms.
             getConnectedMemories JSON_parse db' start maxDepth = Inr ms \<longrightarrow>
               start \<notin> mem_id ` set ms)"
proof -
  have p: "\<forall>r\<in>set (relationships db). toRelationship JSON_parse r \<noteq> Inl SyntaxError"
  proof
    fix r assume "r \<in> set (relationships db)"
    with assms(1) have "r \<in> {r1, r2, r3}" by (simp add: chain4_def)
    with assms(2-4) show "toRelationship JSON_parse r \<noteq> Inl SyntaxError" by blast
  qed
  note t = chain4_traverse [OF assms(1) p]
  have g: "getConnectedMemories JSON_parse db A (Some m) =
             Inr (if m \<le> 0 then [] else if m \<le> 1 then [mB] else if m \<le> 2 then [mB, mC]
                  else [mB, mC, mD])" for m
    by (simp add: getConnectedMemories_def t assms(5-7) del: traverse.simps)
  have 3: "getConnectedMemories JSON_parse db A None = Inr [mB, mC]"
    by (simp add: getConnectedMemories_def t assms(5-7) del: traverse.simps)
  have 5: "\<forall>db' start maxDepth ms.
             getConnectedMemories JSON_parse db' start maxDepth = Inr ms \<longrightarrow>
               start \<notin> mem_id ` set ms"
    by (blast dest: getConnectedMemories_excludes_start)
  from g [of 1] g [of 2] g [of 10] 3 5 g show ?thesis by simp
qed

theorem chain_traversal_witness:
  "getConnectedMemories example_parse db_chain ''a'' (Some 1)
     = Inr [\<lparr>mem_id = ''b'', content = ''Beta'', metadata = JObj [(''type'', JStr ''fact'')],
              created_at = 2, updated_at = 2\<rparr>]
   \<and> getConnectedMemories example_parse db_chain ''a'' (Some 2)
     = Inr [\<lparr>mem_id = ''b'', content = ''Beta'', metadata = JObj [(''type'', JStr ''fact'')],
              created_at = 2, updated_at = 2\<rparr>,
            \<lparr>mem_id = ''c'', content = ''Gamma'', metadata = JObj [], created_at = 4, updated_at = 4\<rparr>]
   \<and> getConnectedMemories example_parse db_chain ''a'' (Some 10)
     = Inr [\<lparr>mem_id = ''b'', content = ''Beta'', metadata = JObj [(''type'', JStr ''fact'')],
              created_at = 2, updated_at = 2\<rparr>,
            \<lparr>mem_id = ''c'', content = ''Gamma'', metadata = JObj [], created_at = 4, updated_at = 4\<rparr>,
            \<lparr>mem_id = ''d'', content = ''Delta'', metadata = JObj [], created_at = 5, updated_at = 5\<rparr>]"
proof -
  let ?r1 = "\<lparr>r_id = ''r1'', r_from_memory_id = ''a'', r_to_memory_id = ''b'',
              r_relationship_type = ''relates_to'', r_strength = 0.8,
              r_metadata = Some ''{}'', r_created_at = 6\<rparr>"
  let ?r2 = "\<lparr>r_id = ''r2'', r_from_memory_id = ''c'', r_to_memory_id = ''b'',
              r_relationship_type = ''contains'', r_strength = 1,
              r_metadata = Some ''{}'', r_created_at = 7\<rparr>"
  let ?r3 = "\<lparr>r_id = ''r3'', r_from_memory_id = ''c'', r_to_memory_id = ''d'',
              r_relationship_type = ''relates_to'', r_strength = 0.5,
              r_metadata = Some ''{}'', r_created_at = 8\<rparr>"
  have rel: "relationships db_chain = [?r1, ?r2, ?r3]" by code_simp
  have e: "example_parse ''{}'' = Some (JObj [])" by code_simp
  have p: "toRelationship example_parse ?r1 \<noteq> Inl SyntaxError"
    "toRelationship example_parse ?r2 \<noteq> Inl SyntaxError"
    "toRelationship example_parse ?r3 \<noteq> Inl SyntaxError"
    by (simp_all add: toRelationship_def parse_metadata_def e)
  have c: "chain4 db_chain ''a'' ''b'' ''c'' ''d'' ?r1 ?r2 ?r3"
    unfolding chain4_def by (simp add: rel links_def)
  have b: "getMemory example_parse db_chain ''b''
             = Inr (Some \<lparr>mem_id = ''b'', content = ''Beta'', metadata = JObj [(''type'', JStr ''fact'')],
                          created_at = 2, updated_at = 2\<rparr>)"
    by code_simp
  have g: "getMemory example_parse db_chain ''c''
             = Inr (Some \<lparr>mem_id = ''c'', content = ''Gamma'', metadata = JObj [],
                          created_at = 4, updated_at = 4\<rparr>)"
    by code_simp
  have d: "getMemory example_parse db_chain ''d''
             = Inr (Some \<lparr>mem_id = ''d'', content = ''Delta'', metadata = JObj [],
                          created_at = 5, updated_at = 5\<rparr>)"
    by code_simp
  from chain_traversal [OF c p b g d] show ?thesis by blast
qed

text \<open>
  C9 as stated fails: in \<open>db_chain_weak\<close> each consecutive pair of \<^verbatim>\<open>a\<close>, \<^verbatim>\<open>b\<close>, \<^verbatim>\<open>c\<close>,
  \<^verbatim>\<open>d\<close> is linked by exactly one relationship, the first of strength \<open>-1\<close>, and the
  traversal from \<^verbatim>\<open>a\<close> returns no memory at any depth.
\<close>

theorem chain_traversal_counterexample:
  "map m_id (memories db_chain_weak) = [''a'', ''b'', ''c'', ''d'']
   \<and> map r_from_memory_id (relationships db_chain_weak) = [''a'', ''c'', ''c'']
   \<and> map r_to_memory_id (relationships db_chain_weak) = [''b'', ''b'', ''d'']
   \<and> map r_strength (relationships db_chain_weak) = [- 1, 1, 0.5]
   \<and> getConnectedMemories example_parse db_chain_weak ''a'' (Some 1) = Inr []
   \<and> getConnectedMemories example_parse db_chain_weak ''a'' (Some 10) = Inr []"
  by code_simp

subsection \<open>Writing and reading back\<close>

lemma find_append_new:
  assumes "ident \<notin> set (map m_id rows)" and "m_id row = ident"
  shows "find (\<lambda>r. m_id r = ident) (rows @ [row]) = Some row"
  using assms by (induction rows) auto

lemma addMemory_succeeds:
  assumes "addMemory generateEmbedding JSON_stringify new_id now db c meta = (Inr i, db')"
  shows "i = new_id \<and> new_id \<notin> set (map m_id (memories db))
       \<and> memories db' = memories db @
           [\<lparr>m_id = new_id, m_content = c,
             m_metadata = Some (case meta of None \<Rightarrow> ''{}'' | Some j \<Rightarrow> JSON_stringify j),
             m_created_at = now, m_updated_at = now\<rparr>]"
proof -
  let ?row = "\<lparr>m_id = new_id, m_content = c,
               m_metadata = Some (case meta of None \<Rightarrow> ''{}'' | Some j \<Rightarrow> JSON_stringify j),
               m_created_at = now, m_updated_at = now\<rparr>"
  from assms obtain v where v: "generateEmbedding c = Inr v"
    by (cases "generateEmbedding c") (simp_all add: addMemory_def)
  from assms v obtain db1 where db1: "insert_memory db ?row = Inr db1"
    by (cases "insert_memory db ?row") (simp_all add: addMemory_def)
  from db1 have new: "new_id \<notin> set (map m_id (memories db))"
    and m1: "memories db1 = memories db @ [?row]"
    by (auto simp: insert_memory_def split: if_splits)
  from assms v db1 have i: "i = new_id"
    and db': "db' = (case insert_embedding db1 new_id v of Inl _ \<Rightarrow> db1 | Inr dbe \<Rightarrow> dbe)"
    by (auto simp: addMemory_def)
  have "memories db' = memories db1"
    unfolding db' by (auto simp: insert_embedding_def split: sum.splits if_splits)
  with i new m1 show ?thesis by simp
qed

text \<open>
  C7, as the code has it. If \<open>addMemory\<close> with content \<open>C\<close> and metadata \<open>M\<close> succeeds
  and returns an id, that id is the new one, and \<open>getMemory\<close> of it reads the row just
  written: its content is \<open>C\<close>, both timestamps are the time of the call, and its
  metadata is what \<^verbatim>\<open>JSON.parse\<close> makes of the text that \<^verbatim>\<open>JSON.stringify\<close> printed for
  \<open>M\<close>. So the metadata read is \<open>M\<close> whenever \<open>M\<close> is a value that the two reproduce,
  \<^verbatim>\<open>JSON.parse(JSON.stringify(M))\<close> being \<open>M\<close> (the text printed is never empty); and a
  call that leaves the metadata out reads back what the text \<^verbatim>\<open>{}\<close> parses to, the empty
  mapping.
\<close>

theorem add_then_get:
  assumes "addMemory generateEmbedding JSON_stringify new_id now db c meta = (Inr i, db')"
  shows "i = new_id
       \<and> getMemory JSON_parse db' i =
           (case parse_metadata JSON_parse
                   (Some (case meta of None \<Rightarrow> ''{}'' | Some M \<Rightarrow> JSON_stringify M)) of
              Inl e \<Rightarrow> Inl e
            | Inr j \<Rightarrow> Inr (Some \<lparr>mem_id = i, content = c, metadata = j,
                                   created_at = now, updated_at = now\<rparr>))
       \<and> (\<forall>M. meta = Some M \<and> JSON_stringify M \<noteq> []
                \<and> JSON_parse (JSON_stringify M) = Some M \<longrightarrow>
              getMemory JSON_parse db' i =
                Inr (Some \<lparr>mem_id = i, content = c, metadata = M,
                           created_at = now, updated_at = now\<rparr>))
       \<and> (\<forall>empty. meta = None \<and> JSON_parse ''{}'' = Some empty \<longrightarrow>
              getMemory JSON_parse db' i =
                Inr (Some \<lparr>mem_id = i, content = c, metadata = empty,
                           created_at = now, updated_at = now\<rparr>))"
proof -
  let ?text = "case meta of None \<Rightarrow> ''{}'' | Some M \<Rightarrow> JSON_stringify M"
  let ?row = "\<lparr>m_id = new_id, m_content = c, m_metadata = Some ?text,
               m_created_at = now, m_updated_at = now\<rparr>"
  from addMemory_succeeds [OF assms] have i: "i = new_id"
    and new: "new_id \<notin> set (map m_id (memories db))"
    and m: "memories db' = memories db @ [?row]"
    by blast+
  have f: "find (\<lambda>r. m_id r = new_id) (memories db') = Some ?row"
    unfolding m by (rule find_append_new [OF new]) simp
  have g: "getMemory JSON_parse db' i =
           (case parse_metadata JSON_parse (Some ?text) of
              Inl e \<Rightarrow> Inl e
            | Inr j \<Rightarrow> Inr (Some \<lparr>mem_id = i, content = c, metadata = j,
                                   created_at = now, updated_at = now\<rparr>))"
    by (simp add: getMemory_def i f toMemory_def split: sum.splits)
  have r: "getMemory JSON_parse db' i =
             Inr (Some \<lparr>mem_id = i, content = c, metadata = M, created_at = now, updated_at = now\<rparr>)"
    if "meta = Some M \<and> JSON_stringify M \<noteq> [] \<and> JSON_parse (JSON_stringify M) = Some M" for M
    using that by (simp add: g parse_metadata_def)
  have d: "getMemory JSON_parse db' i =
             Inr (Some \<lparr>mem_id = i, content = c, metadata = empty, created_at = now, updated_at = now\<rparr>)"
    if "meta = None \<and> JSON_parse ''{}'' = Some empty" for empty
    using that by (simp add: g parse_metadata_def)
  from i g r d show ?thesis by blast
qed

theorem add_then_get_witness:
  "addMemory provider_ok example_stringify ''b'' 2 db1 ''Beta''
       (Some (JObj [(''type'', JStr ''fact'')])) = (Inr ''b'', db2)
   \<and> example_stringify (JObj [(''type'', JStr ''fact'')]) = ''{\"type\":\"fact\"}''
   \<and> example_parse ''{\"type\":\"fact\"}'' = Some (JObj [(''type'', JStr ''fact'')])
   \<and> getMemory example_parse db2 ''b''
       = Inr (Some \<lparr>mem_id = ''b'', content = ''Beta'', metadata = JObj [(''type'', JStr ''fact'')],
                    created_at = 2, updated_at = 2\<rparr>)"
proof -
  have a: "addMemory provider_ok example_stringify ''b'' 2 db1 ''Beta''
       (Some (JObj [(''type'', JStr ''fact'')])) = (Inr ''b'', db2)"
    by code_simp
  have s: "example_stringify (JObj [(''type'', JStr ''fact'')]) = ''{\"type\":\"fact\"}''"
    by code_simp
  have p: "example_parse ''{\"type\":\"fact\"}'' = Some (JObj [(''type'', JStr ''fact'')])"
    by code_simp
  have n: "example_stringify (JObj [(''type'', JStr ''fact'')]) \<noteq> []"
    by code_simp
  have r: "example_parse (example_stringify (JObj [(''type'', JStr ''fact'')]))
             = Some (JObj [(''type'', JStr ''fact'')])"
    by code_simp
  from add_then_get [OF a, of example_parse] n r have
    "getMemory example_parse db2 ''b''
       = Inr (Some \<lparr>mem_id = ''b'', content = ''Beta'', metadata = JObj [(''type'', JStr ''fact'')],
                    created_at = 2, updated_at = 2\<rparr>)"
    by blast
  with a s p show ?thesis by (simp only: simp_thms)
qed

text \<open>
  C7 as stated fails for metadata that JSON cannot express: \<^verbatim>\<open>{ score: Infinity }\<close>
  (what the tool \<^verbatim>\<open>add_memory\<close> passes on when a client sends \<^verbatim>\<open>{"score":1e400}\<close>) is
  written as the text \<^verbatim>\<open>{"score":null}\<close> and read back as \<^verbatim>\<open>{ score: null }\<close>.
\<close>

theorem add_then_get_counterexample:
  "fst (addMemory provider_ok example_stringify ''n'' 1 db0 ''Note''
          (Some (JObj [(''score'', JInfinity)]))) = Inr ''n''
   \<and> map m_metadata (memories (snd (addMemory provider_ok example_stringify ''n'' 1 db0 ''Note''
          (Some (JObj [(''score'', JInfinity)]))))) = [Some ''{\"score\":null}'']
   \<and> getMemory example_parse
        (snd (addMemory provider_ok example_stringify ''n'' 1 db0 ''Note''
                (Some (JObj [(''score'', JInfinity)])))) ''n''
       = Inr (Some \<lparr>mem_id = ''n'', content = ''Note'', metadata = JObj [(''score'', JNull)],
                    created_at = 1, updated_at = 1\<rparr>)
   \<and> JObj [(''score'', JInfinity)] \<noteq> JObj [(''score'', JNull)]"
  by code_simp


end
